theory Spec2Isabelle
  imports Main "HOL-Library.Word"
begin

section \<open>JavaScript values and strings\<close>


definition digit_char :: "nat \<Rightarrow> char" where
  "digit_char d = ''0123456789abcdefghijklmnopqrstuvwxyz'' ! d"

text \<open>\<open>Number.prototype.toString(radix)\<close> on a non-negative integer.\<close>

function toString_radix :: "nat \<Rightarrow> nat \<Rightarrow> string" where
  "toString_radix r n =
     (if n < r \<or> r < 2 then [digit_char n]
      else toString_radix r (n div r) @ [digit_char (n mod r)])"
  by pat_completeness auto
termination
  by (relation "measure snd") auto

declare toString_radix.simps [simp del]

definition toString :: "nat \<Rightarrow> string" where
  "toString n = toString_radix 10 n"

text \<open>\<open>String.prototype.padStart(targetLength, padString)\<close> with a one-character pad.\<close>

definition padStart :: "nat \<Rightarrow> char \<Rightarrow> string \<Rightarrow> string" where
  "padStart n c s = replicate (n - length s) c @ s"

definition startsWith :: "string \<Rightarrow> string \<Rightarrow> bool" where
  "startsWith s p = (take (length p) s = p)"

text \<open>\<open>String.prototype.includes\<close>: the needle occurs as a contiguous substring.\<close>

fun str_includes :: "string \<Rightarrow> string \<Rightarrow> bool" where
  "str_includes [] p = (p = [])"
| "str_includes (c # cs) p = (if startsWith (c # cs) p then True else str_includes cs p)"

text \<open>Truthiness of a value that is \<open>null\<close>/\<open>undefined\<close> or a string, or a number.\<close>

definition truthy_str :: "string option \<Rightarrow> bool" where
  "truthy_str v = (case v of None \<Rightarrow> False | Some s \<Rightarrow> s \<noteq> [])"

definition truthy_num :: "int option \<Rightarrow> bool" where
  "truthy_num v = (case v of None \<Rightarrow> False | Some n \<Rightarrow> n \<noteq> 0)"

section \<open>User identification (getUserId)\<close>

text \<open>
  \<^verbatim>\<open>
  function getUserId() {
      const urlParams = new URLSearchParams(window.location.search);
      let userId = urlParams.get('user_id');
      if (!userId && window.Telegram?.WebApp?.initDataUnsafe?.user?.id) {
          userId = window.Telegram.WebApp.initDataUnsafe.user.id;
      }
      return userId;
  }
  \<close>
  The boost module and the PTS module hold the same function. Its two inputs are
  \<open>urlParams.get('user_id')\<close> (\<open>null\<close> or a string) and the Telegram WebApp user id
  (\<open>undefined\<close> when any link of the optional chain is missing, otherwise a number).
\<close>

datatype js_id = IdNull | IdStr string | IdNum int

definition truthy_id :: "js_id \<Rightarrow> bool" where
  "truthy_id v = (case v of IdNull \<Rightarrow> False | IdStr s \<Rightarrow> s \<noteq> [] | IdNum n \<Rightarrow> n \<noteq> 0)"

definition getUserId :: "string option \<Rightarrow> int option \<Rightarrow> js_id" where
  "getUserId url_user_id telegram_user_id =
     (let userId = (case url_user_id of None \<Rightarrow> IdNull | Some s \<Rightarrow> IdStr s) in
      if \<not> truthy_id userId \<and> truthy_num telegram_user_id
      then IdNum (the telegram_user_id)
      else userId)"

section \<open>Cooldown displays\<close>

text \<open>
  ShrinkEarn, \<open>formatCooldown(seconds)\<close>:
  \<^verbatim>\<open>
  if (seconds < 60) { return `${seconds}s`; }
  const mins = Math.floor(seconds / 60);
  const secs = seconds % 60;
  return `${mins}:${secs.toString().padStart(2, '0')}`;
  \<close>
  \<open>seconds\<close> is a safe integer: there the division, the remainder and the rendering of
  the doubles are exact.
\<close>

definition formatCooldown :: "nat \<Rightarrow> string" where
  "formatCooldown seconds =
     (if seconds < 60 then toString seconds @ ''s''
      else let mins = seconds div 60; secs = seconds mod 60
           in toString mins @ '':'' @ padStart 2 (CHR ''0'') (toString secs))"










section \<open>DbLoader: the database-connection overlay\<close>

text \<open>
  \<open>DbLoader.state\<close> holds \<open>isPolling\<close>, \<open>pollTimer\<close>, \<open>loaderElement\<close> and
  \<open>activeRequests\<close>. The overlay element carries the three classes the code adds and
  removes and the text of its \<open>#db-loader-message\<close> child. \<open>loaderElement\<close> is the
  reference kept in the state (\<open>False\<close> is \<open>null\<close>), \<open>document_overlay\<close> the element
  \<open>#db-loader-overlay\<close> of the document. \<open>fade_timers\<close> counts the pending
  \<open>setTimeout\<close> callbacks of \<open>hide\<close>, \<open>poll_requests\<close> the status requests awaiting
  their answer. \<open>activeRequests\<close> is an \<^typ>\<open>int\<close>: nothing in its type keeps it from
  going negative.
\<close>

record overlay =
  db_loader_hidden :: bool
  db_loader_success :: bool
  db_loader_error :: bool
  db_loader_message :: string

record db_loader =
  isPolling :: bool
  pollTimer :: bool
  loaderElement :: bool
  activeRequests :: int
  document_overlay :: "overlay option"
  fade_timers :: nat
  poll_requests :: nat

definition db_loader_init :: "overlay option \<Rightarrow> db_loader" where
  "db_loader_init doc =
     \<lparr> isPolling = False, pollTimer = False, loaderElement = False, activeRequests = 0,
       document_overlay = doc, fade_timers = 0, poll_requests = 0 \<rparr>"

definition connecting_message :: string where
  "connecting_message = [CHR 0xE2, CHR 0x8F, CHR 0xB3] @ '' Connecting to database...''"

definition connected_message :: string where
  "connected_message = [CHR 0xE2, CHR 0x9C, CHR 0x85] @ '' Connected''"

definition createLoaderElement :: "db_loader \<Rightarrow> db_loader" where
  "createLoaderElement s =
     (case document_overlay s of
        Some el \<Rightarrow> s \<lparr> loaderElement := True \<rparr>
      | None \<Rightarrow>
          s \<lparr> document_overlay :=
                Some \<lparr> db_loader_hidden = True, db_loader_success = False,
                       db_loader_error = False, db_loader_message = connecting_message \<rparr>,
              loaderElement := True \<rparr>)"

definition updateMessage :: "string \<Rightarrow> db_loader \<Rightarrow> db_loader" where
  "updateMessage message s =
     s \<lparr> document_overlay :=
           map_option (\<lambda>el. el \<lparr> db_loader_message := message \<rparr>) (document_overlay s) \<rparr>"

definition stopPolling :: "db_loader \<Rightarrow> db_loader" where
  "stopPolling s = s \<lparr> isPolling := False, pollTimer := False \<rparr>"

text \<open>
  \<open>poll\<close> first compares the clock with \<open>pollTimeout\<close> (\<open>timed_out\<close>), then sends the
  status request. When the answer arrives (\<open>poll_settled\<close>; the message is present when
  \<open>data.message && data.is_connecting\<close>, and a failed request carries none) it schedules
  the next round if polling is still on.
\<close>

definition poll :: "bool \<Rightarrow> db_loader \<Rightarrow> db_loader" where
  "poll timed_out s =
     (if timed_out then stopPolling s else s \<lparr> poll_requests := poll_requests s + 1 \<rparr>)"

definition poll_settled :: "string option \<Rightarrow> db_loader \<Rightarrow> db_loader" where
  "poll_settled answer s =
     (if poll_requests s = 0 then s
      else
        let s1 = s \<lparr> poll_requests := poll_requests s - 1 \<rparr>;
            s2 = (case answer of None \<Rightarrow> s1 | Some m \<Rightarrow> updateMessage m s1)
        in if isPolling s2 then s2 \<lparr> pollTimer := True \<rparr> else s2)"

definition startPolling :: "db_loader \<Rightarrow> db_loader" where
  "startPolling s = (if isPolling s then s else poll False (s \<lparr> isPolling := True \<rparr>))"

definition db_show :: "string \<Rightarrow> db_loader \<Rightarrow> db_loader" where
  "db_show message s =
     (let s1 = s \<lparr> activeRequests := activeRequests s + 1 \<rparr>;
          s2 = (if \<not> loaderElement s1 then createLoaderElement s1 else s1);
          s3 = updateMessage message s2;
          s4 = s3 \<lparr> document_overlay :=
                     map_option (\<lambda>el. el \<lparr> db_loader_hidden := False,
                                            db_loader_success := False,
                                            db_loader_error := False \<rparr>)
                       (document_overlay s3) \<rparr>
      in startPolling s4)"

text \<open>
  \<open>hide(status)\<close>:
  \<^verbatim>\<open>
  this.state.activeRequests = Math.max(0, this.state.activeRequests - 1);
  // Only hide if no more active requests
  if (this.state.activeRequests > 0) return;
  this.stopPolling();
  if (this.state.loaderElement) {
      ... class and message for 'success' or 'error' ...
      setTimeout(() => {
          this.state.loaderElement.classList.add('db-loader-hidden');
      }, this.config.fadeOutDelay);
  }
  \<close>
  Nothing keeps the timer's handle, and \<open>show\<close> does not cancel it.
\<close>

definition db_hide :: "string \<Rightarrow> db_loader \<Rightarrow> db_loader" where
  "db_hide status s =
     (let s1 = s \<lparr> activeRequests := max 0 (activeRequests s - 1) \<rparr> in
      if activeRequests s1 > 0 then s1
      else
        let s2 = stopPolling s1 in
        if loaderElement s2 then
          let s3 =
            (if status = ''success'' then
               updateMessage connected_message
                 (s2 \<lparr> document_overlay :=
                        map_option (\<lambda>el. el \<lparr> db_loader_success := True \<rparr>)
                          (document_overlay s2) \<rparr>)
             else if status = ''error'' then
               s2 \<lparr> document_overlay :=
                      map_option (\<lambda>el. el \<lparr> db_loader_error := True \<rparr>)
                        (document_overlay s2) \<rparr>
             else s2)
          in s3 \<lparr> fade_timers := fade_timers s3 + 1 \<rparr>
        else s2)"

text \<open>The callback scheduled by \<open>hide\<close>, run \<open>fadeOutDelay\<close> later.\<close>

definition fade_timeout :: "db_loader \<Rightarrow> db_loader" where
  "fade_timeout s =
     (if fade_timers s = 0 then s
      else s \<lparr> fade_timers := fade_timers s - 1,
               document_overlay :=
                 map_option (\<lambda>el. el \<lparr> db_loader_hidden := True \<rparr>) (document_overlay s) \<rparr>)"

text \<open>
  Everything that can run on the loader, one event per turn of the event loop.
  \<open>DbLoader.wrap\<close> is a \<open>Show\<close> followed, when its promise settles, by \<open>Hide ''success''\<close>
  or \<open>Hide ''error''\<close>.
\<close>

datatype db_event =
    Show string
  | Hide string
  | FadeTimeout
  | PollSettled "string option"
  | PollTimerFired bool

fun db_step :: "db_loader \<Rightarrow> db_event \<Rightarrow> db_loader" where
  "db_step s (Show message) = db_show message s"
| "db_step s (Hide status) = db_hide status s"
| "db_step s FadeTimeout = fade_timeout s"
| "db_step s (PollSettled answer) = poll_settled answer s"
| "db_step s (PollTimerFired timed_out) = (if pollTimer s then poll timed_out s else s)"

definition db_run :: "db_loader \<Rightarrow> db_event list \<Rightarrow> db_loader" where
  "db_run s evs = foldl db_step s evs"

section \<open>VPN gate (vpn_detector.js)\<close>

record vpn_check_config =
  enabled :: bool
  apiEndpoint :: string
  blockOnError :: bool
  cacheTimeout :: int
  maxRetries :: nat
  debug :: bool

definition VPN_CHECK_CONFIG :: vpn_check_config where
  "VPN_CHECK_CONFIG =
     \<lparr> enabled = True, apiEndpoint = ''/api/vpn-check'', blockOnError = False,
       cacheTimeout = 60000, maxRetries = 2, debug = False \<rparr>"

text \<open>
  The answer of the endpoint as far as the code reads it: the truthiness of its fields
  \<open>vpn_detected\<close> and \<open>error\<close>. A JSON body is \<open>null\<close>, on which reading a field
  throws a \<open>TypeError\<close>, or any other value, which reads as these two fields (both
  falsy on a number, a text or a boolean).
\<close>

record vpn_result =
  vpn_detected :: bool
  vpn_error :: bool

datatype json_body = JsonNull | JsonObject vpn_result

text \<open>
  What one \<open>fetch\<close> of the endpoint can come to. \<open>FetchPending\<close>: the request, or
  the reading of its body, never settles; the code sets no timeout.
\<close>

datatype fetch_outcome =
    FetchRejected
  | FetchPending
  | ResponseNotOk
  | BodyNotJson
  | Body json_body

text \<open>
  What the page load is given: the location, the clock at the two places that read it,
  the browser's \<open>parseInt\<close> (\<open>None\<close> is \<open>NaN\<close>), \<open>JSON.parse\<close> (\<open>None\<close> when it
  throws a \<open>SyntaxError\<close>, or yields \<open>null\<close>, whose property read throws next) and
  \<open>JSON.stringify\<close>, and the outcome of the k-th request.
\<close>

record vpn_env =
  pathname :: string
  search_user_id :: "string option"
  now_at_check :: int
  now_at_store :: int
  parseInt :: "string \<Rightarrow> int option"
  JSON_parse :: "string \<Rightarrow> vpn_result option"
  JSON_stringify :: "vpn_result \<Rightarrow> string"
  attempt :: "nat \<Rightarrow> fetch_outcome"

datatype vpn_event =
    CreateOverlay
  | Fetch string
  | Sleep nat
  | Redirect string
  | HideOverlay

text \<open>
  How a call ends: it returns, an exception leaves it, or it stays suspended at an
  \<open>await\<close> that never settles.
\<close>

datatype completion = Returned | Threw | Suspended

record vpn_run =
  sessionStorage :: "string \<rightharpoonup> string"
  events :: "vpn_event list"
  outcome :: completion

text \<open>
  \<open>checkVPNStatus\<close> returns the parsed body as it is (\<open>return data\<close>), and the object
  \<open>{vpn_detected: blockOnError, error: true}\<close> from its \<open>catch\<close> when the request
  fails, the response is not ok or the body is no JSON. \<open>None\<close>: its promise never
  settles.
\<close>

definition checkVPNStatus :: "fetch_outcome \<Rightarrow> json_body option" where
  "checkVPNStatus response =
     (case response of
        Body data \<Rightarrow> Some data
      | FetchPending \<Rightarrow> None
      | _ \<Rightarrow> Some (JsonObject
                   \<lparr> vpn_detected = blockOnError VPN_CHECK_CONFIG, vpn_error = True \<rparr>))"

definition redirectToBlockedPage :: "vpn_env \<Rightarrow> vpn_event" where
  "redirectToBlockedPage env =
     (let userId = (if truthy_str (search_user_id env) then the (search_user_id env) else [])
      in Redirect (''/vpn-blocked'' @ (if userId \<noteq> [] then ''?user_id='' @ userId else [])))"

definition int_toString :: "int \<Rightarrow> string" where
  "int_toString i = (if i < 0 then ''-'' @ toString (nat (- i)) else toString (nat i))"

text \<open>
  The retry loop of \<open>initVPNCheck\<close>:
  \<^verbatim>\<open>
  let retries = 0; let result = null;
  while (retries < VPN_CHECK_CONFIG.maxRetries) {
      result = await checkVPNStatus();
      if (!result.error) { break; }
      retries++;
      await new Promise(resolve => setTimeout(resolve, 500));
  }
  \<close>
  \<open>result\<close> starts as \<open>null\<close>. The loop is left in three ways: normally, by the
  \<open>TypeError\<close> of \<open>result.error\<close> on a \<open>null\<close> body (the read is outside any
  \<open>try\<close>), or never, when \<open>checkVPNStatus\<close> does not settle.
\<close>

function vpn_retry_loop ::
  "(nat \<Rightarrow> fetch_outcome) \<Rightarrow> nat \<Rightarrow> json_body \<Rightarrow> vpn_event list
     \<Rightarrow> json_body \<times> vpn_event list \<times> completion" where
  "vpn_retry_loop server retries result evs =
     (if retries < maxRetries VPN_CHECK_CONFIG then
        let evs' = evs @ [Fetch (apiEndpoint VPN_CHECK_CONFIG)] in
        case checkVPNStatus (server retries) of
          None \<Rightarrow> (result, evs', Suspended)
        | Some JsonNull \<Rightarrow> (JsonNull, evs', Threw)
        | Some (JsonObject r) \<Rightarrow>
            if \<not> vpn_error r then (JsonObject r, evs', Returned)
            else vpn_retry_loop server (retries + 1) (JsonObject r) (evs' @ [Sleep 500])
      else (result, evs, Returned))"
  by pat_completeness auto
termination
  by (relation "measure (\<lambda>(server, retries, result, evs). maxRetries VPN_CHECK_CONFIG - retries)")
     auto

declare vpn_retry_loop.simps [simp del]

text \<open>
  \<open>cachedResult && cachedTime\<close>, then \<open>Date.now() - parseInt(cachedTime) < cacheTimeout\<close>;
  a comparison with \<open>NaN\<close> is false.
\<close>

definition cache_is_fresh :: "vpn_env \<Rightarrow> (string \<rightharpoonup> string) \<Rightarrow> bool" where
  "cache_is_fresh env st =
     (let cachedResult = st ''vpn_check_result''; cachedTime = st ''vpn_check_time'' in
      if truthy_str cachedResult \<and> truthy_str cachedTime then
        (case parseInt env (the cachedTime) of
           None \<Rightarrow> False
         | Some t \<Rightarrow> now_at_check env - t < cacheTimeout VPN_CHECK_CONFIG)
      else False)"

definition initVPNCheck :: "vpn_env \<Rightarrow> (string \<rightharpoonup> string) \<Rightarrow> vpn_run" where
  "initVPNCheck env st =
     (if \<not> enabled VPN_CHECK_CONFIG then
        \<lparr> sessionStorage = st, events = [], outcome = Returned \<rparr>
      else if pathname env = ''/vpn-blocked'' then
        \<lparr> sessionStorage = st, events = [], outcome = Returned \<rparr>
      else if startsWith (pathname env) ''/admin'' then
        \<lparr> sessionStorage = st, events = [], outcome = Returned \<rparr>
      else if cache_is_fresh env st then
        (case JSON_parse env (the (st ''vpn_check_result'')) of
           None \<Rightarrow> \<lparr> sessionStorage = st, events = [CreateOverlay], outcome = Threw \<rparr>
         | Some result \<Rightarrow>
             if vpn_detected result then
               \<lparr> sessionStorage = st, events = [CreateOverlay, redirectToBlockedPage env],
                 outcome = Returned \<rparr>
             else
               \<lparr> sessionStorage = st, events = [CreateOverlay, HideOverlay],
                 outcome = Returned \<rparr>)
      else
        (case vpn_retry_loop (attempt env) 0 JsonNull [CreateOverlay] of
           (result, evs, Returned) \<Rightarrow>
             let st' =
               (case result of
                  JsonNull \<Rightarrow> st
                | JsonObject r \<Rightarrow>
                    if \<not> vpn_error r then
                      st(''vpn_check_result'' \<mapsto> JSON_stringify env r,
                         ''vpn_check_time'' \<mapsto> int_toString (now_at_store env))
                    else st);
               detected = (case result of JsonNull \<Rightarrow> False | JsonObject r \<Rightarrow> vpn_detected r)
             in \<lparr> sessionStorage = st',
                  events = evs @ [if detected then redirectToBlockedPage env else HideOverlay],
                  outcome = Returned \<rparr>
         | (result, evs, ended) \<Rightarrow>
             \<lparr> sessionStorage = st, events = evs, outcome = ended \<rparr>))"

fun is_Fetch :: "vpn_event \<Rightarrow> bool" where
  "is_Fetch (Fetch url) = True"
| "is_Fetch e = False"

fun is_network :: "vpn_event \<Rightarrow> bool" where
  "is_network (Fetch url) = True"
| "is_network (Sleep ms) = True"
| "is_network e = False"

section \<open>Device fingerprint (device_fingerprint.js)\<close>

text \<open>
  \<open>hashCode\<close>: \<open>hash = ((hash << 5) - hash) + char; hash = hash & hash\<close> keeps a 32-bit
  two's complement value; the result is \<open>Math.abs(hash).toString(36)\<close>. \<open>charCodeAt\<close>
  is the character's code, so the model is exact on texts of one-byte characters.
\<close>

fun hashCode_loop :: "32 word \<Rightarrow> string \<Rightarrow> 32 word" where
  "hashCode_loop hash [] = hash"
| "hashCode_loop hash (c # cs) =
     hashCode_loop ((push_bit 5 hash - hash) + of_nat (of_char c)) cs"

definition hashCode :: "string \<Rightarrow> string" where
  "hashCode str = toString_radix 36 (nat \<bar>sint (hashCode_loop 0 str)\<bar>)"

fun join :: "string \<Rightarrow> string list \<Rightarrow> string" where
  "join sep [] = []"
| "join sep [x] = x"
| "join sep (x # y # ys) = x @ sep @ join sep (y # ys)"

text \<open>
  The readings of the device, each as the text JavaScript renders it to when
  \<open>generate\<close> joins or concatenates it.
\<close>

record readings =
  canvas :: string
  webgl :: string
  audio :: string
  screen_width :: string
  screen_height :: string
  screen_colorDepth :: string
  screen_pixelRatio :: string
  browser_platform :: string
  browser_timezone :: string
  browser_hardwareConcurrency :: string
  browser_maxTouchPoints :: string
  browser_plugins :: string
  storage_fingerprint :: string

definition generate :: "readings \<Rightarrow> string" where
  "generate d =
     (let components =
            [canvas d, webgl d, audio d, screen_width d @ ''x'' @ screen_height d,
             screen_colorDepth d, screen_pixelRatio d, browser_platform d,
             browser_timezone d, browser_hardwareConcurrency d, browser_maxTouchPoints d,
             browser_plugins d, storage_fingerprint d];
          fullHash = hashCode (join ''|'' components);
          shortHash = hashCode (canvas d @ webgl d @ screen_width d @ browser_platform d)
      in ''df_'' @ shortHash @ ''_'' @ fullHash)"

text \<open>
  \<open>localStorage\<close> holds texts. A text is kept as what \<open>JSON.parse\<close> makes of it:
  \<open>NotJson\<close> for the empty text and for a text \<open>JSON.parse\<close> rejects, otherwise the two
  fields the getter reads (\<open>None\<close> for a field that is missing). Writing
  \<open>JSON.stringify({hash, timestamp})\<close> stores the text that parses back to these fields.
\<close>

record fp_data =
  fp_hash :: "string option"
  fp_timestamp :: "int option"

datatype stored_text = NotJson | JsonText fp_data

record fp_call =
  returned :: "string option"
  localStorage :: "string \<rightharpoonup> stored_text"
  generate_calls :: nat

text \<open>
  \<^verbatim>\<open>
  const stored = localStorage.getItem('_se_device_fp');
  if (stored) {
      try {
          const data = JSON.parse(stored);
          if (data.timestamp && (Date.now() - data.timestamp) < 86400000) {
              return data.hash;
          }
      } catch (e) {}
  }
  const fingerprint = this.generate();
  localStorage.setItem('_se_device_fp', JSON.stringify({
      hash: fingerprint.hash, timestamp: Date.now() }));
  return fingerprint.hash;
  \<close>
  \<open>now\<close> is the clock at the comparison, \<open>now_store\<close> the clock when the entry is written.
\<close>

definition regenerate :: "readings \<Rightarrow> int \<Rightarrow> (string \<rightharpoonup> stored_text) \<Rightarrow> fp_call" where
  "regenerate d now_store ls =
     (let fingerprint = generate d in
      \<lparr> returned = Some fingerprint,
        localStorage =
          ls(''_se_device_fp'' \<mapsto>
               JsonText \<lparr> fp_hash = Some fingerprint, fp_timestamp = Some now_store \<rparr>),
        generate_calls = 1 \<rparr>)"

definition getStoredFingerprint ::
  "readings \<Rightarrow> int \<Rightarrow> int \<Rightarrow> (string \<rightharpoonup> stored_text) \<Rightarrow> fp_call" where
  "getStoredFingerprint d now now_store ls =
     (case ls ''_se_device_fp'' of
        Some (JsonText data) \<Rightarrow>
          if truthy_num (fp_timestamp data) \<and> now - the (fp_timestamp data) < 86400000
          then \<lparr> returned = fp_hash data, localStorage = ls, generate_calls = 0 \<rparr>
          else regenerate d now_store ls
      | _ \<Rightarrow> regenerate d now_store ls)"

text \<open>The timestamp cached under \<open>_se_device_fp\<close>, when the entry has one.\<close>

definition cached_timestamp :: "(string \<rightharpoonup> stored_text) \<Rightarrow> int option" where
  "cached_timestamp ls =
     (case ls ''_se_device_fp'' of
        Some (JsonText data) \<Rightarrow> fp_timestamp data
      | _ \<Rightarrow> None)"

section \<open>Ad SDK loaders\<close>

text \<open>
  A rejected promise carries the thrown value: an object with optional \<open>message\<close> and
  \<open>description\<close> texts, or \<open>null\<close>/\<open>undefined\<close>. A promise that never settles is
  \<open>Pending\<close>.
\<close>

datatype js_error = JsError "string option" "string option" | Nullish

datatype 'a promise = Fulfilled 'a | Rejected js_error | Pending

text \<open>
  OnClickA, \<open>loadOnClickaSDK\<close>:
  \<^verbatim>\<open>
  if (onclickaReady) { resolve(true); return; }
  if (document.querySelector(`script[src="${ONCLICKA_CONFIG.scriptUrl}"]`)) {
      onclickaReady = true; resolve(true); return;
  }
  const script = document.createElement('script'); ...
  script.onload = () => { onclickaReady = true; resolve(true); };
  script.onerror = () => { reject(new Error('Failed to load OnClickA SDK')); };
  document.head.appendChild(script);
  \<close>
  \<open>onclicka_tags\<close> counts the script elements with that \<open>src\<close> in the document,
  \<open>onclicka_injected\<close> those the loader appended, \<open>onclicka_loading\<close> those whose
  load or error event is still to come.
\<close>

record onclicka_page =
  onclickaReady :: bool
  onclicka_tags :: nat
  onclicka_injected :: nat
  onclicka_loading :: nat

definition loadOnClickaSDK :: "onclicka_page \<Rightarrow> onclicka_page \<times> bool promise" where
  "loadOnClickaSDK s =
     (if onclickaReady s then (s, Fulfilled True)
      else if onclicka_tags s > 0 then (s \<lparr> onclickaReady := True \<rparr>, Fulfilled True)
      else (s \<lparr> onclicka_tags := onclicka_tags s + 1,
                onclicka_injected := onclicka_injected s + 1,
                onclicka_loading := onclicka_loading s + 1 \<rparr>, Pending))"

definition onclicka_onload :: "onclicka_page \<Rightarrow> onclicka_page \<times> bool promise" where
  "onclicka_onload s = (s \<lparr> onclickaReady := True \<rparr>, Fulfilled True)"

definition onclicka_onerror :: "onclicka_page \<Rightarrow> onclicka_page \<times> bool promise" where
  "onclicka_onerror s = (s, Rejected (JsError (Some ''Failed to load OnClickA SDK'') None))"

datatype onclicka_event = LoadCall | ScriptLoaded | ScriptFailed

fun onclicka_step :: "onclicka_page \<Rightarrow> onclicka_event \<Rightarrow> onclicka_page" where
  "onclicka_step s LoadCall = fst (loadOnClickaSDK s)"
| "onclicka_step s ScriptLoaded =
     (if onclicka_loading s = 0 then s
      else fst (onclicka_onload (s \<lparr> onclicka_loading := onclicka_loading s - 1 \<rparr>)))"
| "onclicka_step s ScriptFailed =
     (if onclicka_loading s = 0 then s
      else fst (onclicka_onerror (s \<lparr> onclicka_loading := onclicka_loading s - 1 \<rparr>)))"

definition onclicka_run :: "onclicka_page \<Rightarrow> onclicka_event list \<Rightarrow> onclicka_page" where
  "onclicka_run s evs = foldl onclicka_step s evs"

text \<open>
  AdsGram, \<open>initAdsgram\<close>:
  \<^verbatim>\<open>
  if (window.Adsgram && isAdsgramReady) { resolve(adsgramController); return; }
  if (!window.Adsgram) {
      const script = document.createElement('script'); ...
      script.onload = () => { try { adsgramController = window.Adsgram.init({...});
                                    isAdsgramReady = true; resolve(adsgramController);
                              } catch (error) { reject(error); } };
      script.onerror = () => { reject(new Error('Failed to load AdsGram SDK')); };
      document.head.appendChild(script);
  } else {
      try { adsgramController = window.Adsgram.init({...});
            isAdsgramReady = true; resolve(adsgramController);
      } catch (error) { reject(error); }
  }
  \<close>
  \<open>window_Adsgram\<close> says that the SDK global exists; the SDK's script defines it when it
  has loaded. \<open>init_throws\<close> is the value \<open>Adsgram.init\<close> throws, if it throws.
\<close>

record adsgram_page =
  window_Adsgram :: bool
  isAdsgramReady :: bool
  adsgramController :: bool
  adsgram_scripts :: nat
  adsgram_loading :: nat

definition adsgram_page_init :: adsgram_page where
  "adsgram_page_init =
     \<lparr> window_Adsgram = False, isAdsgramReady = False, adsgramController = False,
       adsgram_scripts = 0, adsgram_loading = 0 \<rparr>"

definition Adsgram_init :: "js_error option \<Rightarrow> adsgram_page \<Rightarrow> adsgram_page \<times> unit promise" where
  "Adsgram_init init_throws s =
     (case init_throws of
        None \<Rightarrow> (s \<lparr> adsgramController := True, isAdsgramReady := True \<rparr>, Fulfilled ())
      | Some error \<Rightarrow> (s, Rejected error))"

definition initAdsgram :: "js_error option \<Rightarrow> adsgram_page \<Rightarrow> adsgram_page \<times> unit promise" where
  "initAdsgram init_throws s =
     (if window_Adsgram s \<and> isAdsgramReady s then (s, Fulfilled ())
      else if \<not> window_Adsgram s then
        (s \<lparr> adsgram_scripts := adsgram_scripts s + 1,
             adsgram_loading := adsgram_loading s + 1 \<rparr>, Pending)
      else Adsgram_init init_throws s)"

definition adsgram_onload :: "js_error option \<Rightarrow> adsgram_page \<Rightarrow> adsgram_page \<times> unit promise" where
  "adsgram_onload init_throws s = Adsgram_init init_throws (s \<lparr> window_Adsgram := True \<rparr>)"

definition adsgram_onerror :: "adsgram_page \<Rightarrow> adsgram_page \<times> unit promise" where
  "adsgram_onerror s = (s, Rejected (JsError (Some ''Failed to load AdsGram SDK'') None))"

datatype adsgram_event =
    InitCall "js_error option"
  | SdkLoaded "js_error option"
  | SdkFailed

fun adsgram_step :: "adsgram_page \<Rightarrow> adsgram_event \<Rightarrow> adsgram_page" where
  "adsgram_step s (InitCall init_throws) = fst (initAdsgram init_throws s)"
| "adsgram_step s (SdkLoaded init_throws) =
     (if adsgram_loading s = 0 then s
      else fst (adsgram_onload init_throws (s \<lparr> adsgram_loading := adsgram_loading s - 1 \<rparr>)))"
| "adsgram_step s SdkFailed =
     (if adsgram_loading s = 0 then s
      else fst (adsgram_onerror (s \<lparr> adsgram_loading := adsgram_loading s - 1 \<rparr>)))"

definition adsgram_run :: "adsgram_page \<Rightarrow> adsgram_event list \<Rightarrow> adsgram_page" where
  "adsgram_run s evs = foldl adsgram_step s evs"

text \<open>
  \<open>await initAdsgram()\<close> as one flow sees it: the call, and when it appended a script,
  what becomes of that script.
\<close>

datatype script_fate = ScriptLoads | ScriptFails | ScriptHangs

definition initAdsgram_await ::
  "script_fate \<Rightarrow> js_error option \<Rightarrow> adsgram_page \<Rightarrow> adsgram_page \<times> unit promise" where
  "initAdsgram_await fate init_throws s =
     (case initAdsgram init_throws s of
        (s', Pending) \<Rightarrow>
          (case fate of
             ScriptLoads \<Rightarrow>
               adsgram_onload init_throws (s' \<lparr> adsgram_loading := adsgram_loading s' - 1 \<rparr>)
           | ScriptFails \<Rightarrow>
               adsgram_onerror (s' \<lparr> adsgram_loading := adsgram_loading s' - 1 \<rparr>)
           | ScriptHangs \<Rightarrow> (s', Pending))
      | (s', settled) \<Rightarrow> (s', settled))"

section \<open>AdsGram boost: consent modal and ad flow\<close>

text \<open>
  What a handler does to the outside is logged in order: a toast (message, type), a
  haptic call (method, argument), a request (method, URL), a timer (delay, callback).
\<close>

datatype effect =
    Toast string string
  | Haptic string string
  | Request string string
  | Timer nat string

text \<open>
  The page: each element the boost module looks up by id is present or not (\<open>None\<close>);
  \<open>accept_disabled\<close> and \<open>cancel_disabled\<close> are the \<open>disabled\<close> properties of
  \<open>#boost-accept-btn\<close> and \<open>#boost-cancel-btn\<close>, the two displays are the
  \<open>style.display\<close> of \<open>#boost-consent-modal\<close> and \<open>#boost-loading\<close>.
  \<open>eligibility_pending\<close> counts the \<open>can-activate\<close> requests of \<open>openBoostModal\<close> that
  are still awaited.
\<close>

record boost_page =
  styles_present :: bool
  modal_display :: "string option"
  accept_disabled :: "bool option"
  cancel_disabled :: "bool option"
  loading_display :: "string option"
  sdk :: adsgram_page
  eligibility_pending :: nat
  effects :: "effect list"

record activate_data =
  ad_success :: bool
  ad_pts_earned :: "nat option"
  ad_error :: "string option"

record eligibility =
  el_can_activate :: bool
  el_reason :: "string option"

text \<open>
  What the flow meets: where the user id can come from, whether the Telegram haptic
  interface exists, the fate of the SDK script, the outcome of \<open>controller.show()\<close> (the
  truthiness of \<open>result.done\<close>) and of the activation request with its \<open>json()\<close>.
\<close>

record world =
  url_user_id :: "string option"
  telegram_user_id :: "int option"
  haptic_feedback :: bool
  sdk_script :: script_fate
  init_throws :: "js_error option"
  show_result :: "bool promise"
  activate_result :: "activate_data promise"

definition id_text :: "js_id \<Rightarrow> string" where
  "id_text v = (case v of IdNull \<Rightarrow> ''null'' | IdStr s \<Rightarrow> s | IdNum n \<Rightarrow> int_toString n)"

definition haptic :: "world \<Rightarrow> string \<Rightarrow> string \<Rightarrow> boost_page \<Rightarrow> boost_page" where
  "haptic w method arg p =
     (if haptic_feedback w then p \<lparr> effects := effects p @ [Haptic method arg] \<rparr> else p)"

definition showBoostToast :: "string \<Rightarrow> string \<Rightarrow> boost_page \<Rightarrow> boost_page" where
  "showBoostToast message type p = p \<lparr> effects := effects p @ [Toast message type] \<rparr>"

definition createBoostModalStyles :: "boost_page \<Rightarrow> boost_page" where
  "createBoostModalStyles p = p \<lparr> styles_present := True \<rparr>"

definition createBoostConsentModal :: "boost_page \<Rightarrow> boost_page" where
  "createBoostConsentModal p =
     (if modal_display p \<noteq> None then p
      else p \<lparr> modal_display := Some ''none'',
               accept_disabled :=
                 (if accept_disabled p = None then Some False else accept_disabled p),
               cancel_disabled :=
                 (if cancel_disabled p = None then Some False else cancel_disabled p),
               loading_display :=
                 (if loading_display p = None then Some ''none'' else loading_display p) \<rparr>)"

definition closeBoostModal :: "world \<Rightarrow> boost_page \<Rightarrow> boost_page" where
  "closeBoostModal w p =
     haptic w ''impactOccurred'' ''light''
       (p \<lparr> modal_display := map_option (\<lambda>_. ''none'') (modal_display p),
            loading_display := map_option (\<lambda>_. ''none'') (loading_display p),
            accept_disabled := map_option (\<lambda>_. False) (accept_disabled p),
            cancel_disabled := map_option (\<lambda>_. False) (cancel_disabled p) \<rparr>)"

text \<open>
  The success message, \<open>[rocket] [inverted !]Boost x2 activado por 30 minutos!\<close> and the
  points earned.
\<close>

definition boost_activated :: "string \<Rightarrow> string" where
  "boost_activated ptsMsg =
     [CHR 0xF0, CHR 0x9F, CHR 0x9A, CHR 0x80] @ '' '' @ [CHR 0xC2, CHR 0xA1]
       @ ''Boost x2 activado por 30 minutos!'' @ ptsMsg"

text \<open>
  The three branches on the activation answer:
  \<^verbatim>\<open>
  if (activateData.success) {
      const ptsMsg = activateData.boost?.pts_earned
          ? ` +${activateData.boost.pts_earned} PTS` : ' +15 PTS';
      showBoostToast(`... activado por 30 minutos!${ptsMsg}`, 'success');
  } else if (activateData.error && activateData.error.includes('activo')) {
      showBoostToast('... activado por 30 minutos! +15 PTS', 'success');
  } else {
      showBoostToast(activateData.error || 'Boost activado', 'info');
  }
  \<close>
\<close>

definition activation_toast :: "activate_data \<Rightarrow> boost_page \<Rightarrow> boost_page" where
  "activation_toast activateData p =
     (if ad_success activateData then
        let ptsMsg =
          (case ad_pts_earned activateData of
             None \<Rightarrow> '' +15 PTS''
           | Some n \<Rightarrow> if n \<noteq> 0 then '' +'' @ toString n @ '' PTS'' else '' +15 PTS'')
        in showBoostToast (boost_activated ptsMsg) ''success'' p
      else if truthy_str (ad_error activateData)
              \<and> str_includes (the (ad_error activateData)) ''activo'' then
        showBoostToast (boost_activated '' +15 PTS'') ''success'' p
      else
        showBoostToast
          (if truthy_str (ad_error activateData) then the (ad_error activateData)
           else ''Boost activado'') ''info'' p)"

definition text_includes :: "string option \<Rightarrow> string \<Rightarrow> bool" where
  "text_includes v needle = (case v of None \<Rightarrow> False | Some s \<Rightarrow> str_includes s needle)"

text \<open>
  The \<open>catch\<close> block of \<open>acceptAndShowAd\<close>. Reading \<open>error.message\<close> of \<open>null\<close> or
  \<open>undefined\<close> throws a \<open>TypeError\<close> out of the block.
\<close>

definition catch_block :: "world \<Rightarrow> js_error \<Rightarrow> boost_page \<Rightarrow> boost_page \<times> unit promise" where
  "catch_block w error p =
     (case error of
        Nullish \<Rightarrow> (p, Rejected (JsError (Some ''Cannot read properties'') None))
      | JsError message description \<Rightarrow>
          let p1 =
            (if text_includes message ''user'' then showBoostToast ''Anuncio cancelado'' ''info'' p
             else if text_includes description ''user'' then
               showBoostToast ''Anuncio cancelado'' ''info'' p
             else showBoostToast ''Error al cargar anuncio. Intenta de nuevo.'' ''error'' p)
          in (haptic w ''notificationOccurred'' ''error'' p1, Fulfilled ()))"

text \<open>The \<open>finally\<close> block.\<close>

definition finally_block :: "world \<Rightarrow> boost_page \<Rightarrow> boost_page" where
  "finally_block w p =
     closeBoostModal w
       (p \<lparr> loading_display := map_option (\<lambda>_. ''none'') (loading_display p),
            accept_disabled := map_option (\<lambda>_. False) (accept_disabled p),
            cancel_disabled := map_option (\<lambda>_. False) (cancel_disabled p) \<rparr>)"

definition catch_finally :: "world \<Rightarrow> js_error \<Rightarrow> boost_page \<Rightarrow> boost_page \<times> unit promise" where
  "catch_finally w error p =
     (case catch_block w error p of (p', r) \<Rightarrow> (finally_block w p', r))"

text \<open>After the activation attempt: the timer for \<open>updateBoostUI\<close> and the haptic call.\<close>

definition after_activation :: "world \<Rightarrow> boost_page \<Rightarrow> boost_page \<times> unit promise" where
  "after_activation w p =
     (finally_block w
        (haptic w ''notificationOccurred'' ''success''
           (p \<lparr> effects := effects p @ [Timer 1000 ''updateBoostUI''] \<rparr>)),
      Fulfilled ())"

text \<open>
  \<open>acceptAndShowAd\<close>. The result is the page and how the call ended: \<open>Fulfilled\<close> when it
  returned, \<open>Rejected\<close> when an exception left it, \<open>Pending\<close> when a promise it awaits
  never settles (the page is then the one left at that \<open>await\<close>).
\<close>

definition acceptAndShowAd :: "world \<Rightarrow> boost_page \<Rightarrow> boost_page \<times> unit promise" where
  "acceptAndShowAd w p0 =
     (let p1 = p0 \<lparr> accept_disabled := map_option (\<lambda>_. True) (accept_disabled p0),
                    cancel_disabled := map_option (\<lambda>_. True) (cancel_disabled p0),
                    loading_display := map_option (\<lambda>_. ''flex'') (loading_display p0) \<rparr>;
          loaded = initAdsgram_await (sdk_script w) (init_throws w) (sdk p1);
          p2 = p1 \<lparr> sdk := fst loaded \<rparr>
      in case snd loaded of
           Pending \<Rightarrow> (p2, Pending)
         | Rejected error \<Rightarrow> catch_finally w error p2
         | Fulfilled controller \<Rightarrow>
             (case show_result w of
                Pending \<Rightarrow> (p2, Pending)
              | Rejected error \<Rightarrow> catch_finally w error p2
              | Fulfilled done \<Rightarrow>
                  if done then
                    let userId = getUserId (url_user_id w) (telegram_user_id w);
                        p3 = p2 \<lparr> effects := effects p2 @
                               [Request ''POST'' (''/api/boost/activate?user_id='' @ id_text userId)] \<rparr>
                    in (case activate_result w of
                          Pending \<Rightarrow> (p3, Pending)
                        | Rejected activateError \<Rightarrow>
                            after_activation w
                              (showBoostToast (boost_activated '' +15 PTS'') ''success''
                                 (closeBoostModal w p3))
                        | Fulfilled activateData \<Rightarrow>
                            after_activation w
                              (activation_toast activateData (closeBoostModal w p3)))
                  else (finally_block w p2, Fulfilled ())))"

text \<open>
  \<open>openBoostModal\<close>, up to its \<open>await fetch\<close>, and its continuation when the
  eligibility answer (or the failure of the request) arrives.
\<close>

definition openBoostModal :: "world \<Rightarrow> boost_page \<Rightarrow> boost_page" where
  "openBoostModal w p =
     (let p1 = createBoostConsentModal (createBoostModalStyles p);
          userId = getUserId (url_user_id w) (telegram_user_id w)
      in if \<not> truthy_id userId then
           showBoostToast ''Error: Usuario no identificado'' ''error'' p1
         else
           p1 \<lparr> effects := effects p1 @
                  [Request ''GET'' (''/api/boost/can-activate?user_id='' @ id_text userId)],
                eligibility_pending := eligibility_pending p1 + 1 \<rparr>)"

definition connection_error :: string where
  "connection_error = ''Error de conexi'' @ [CHR 0xC3, CHR 0xB3] @ ''n''"

definition openBoostModal_settled ::
  "world \<Rightarrow> eligibility promise \<Rightarrow> boost_page \<Rightarrow> boost_page" where
  "openBoostModal_settled w answer p =
     (if eligibility_pending p = 0 then p
      else
        let p1 = p \<lparr> eligibility_pending := eligibility_pending p - 1 \<rparr> in
        case answer of
          Pending \<Rightarrow> p
        | Rejected error \<Rightarrow> showBoostToast connection_error ''error'' p1
        | Fulfilled data \<Rightarrow>
            if \<not> el_can_activate data then
              showBoostToast
                (if truthy_str (el_reason data) then the (el_reason data)
                 else ''No puedes activar boost ahora'') ''warning'' p1
            else
              haptic w ''impactOccurred'' ''light''
                (p1 \<lparr> modal_display := map_option (\<lambda>_. ''flex'') (modal_display p1) \<rparr>))"

datatype boost_event = OpenBoost | EligibilitySettled "eligibility promise"

fun boost_step :: "world \<Rightarrow> boost_page \<Rightarrow> boost_event \<Rightarrow> boost_page" where
  "boost_step w p OpenBoost = openBoostModal w p"
| "boost_step w p (EligibilitySettled answer) = openBoostModal_settled w answer p"

definition boost_run :: "world \<Rightarrow> boost_page \<Rightarrow> boost_event list \<Rightarrow> boost_page" where
  "boost_run w p evs = foldl (boost_step w) p evs"

definition boost_page_init :: boost_page where
  "boost_page_init =
     \<lparr> styles_present = False, modal_display = None, accept_disabled = None,
       cancel_disabled = None, loading_display = None, sdk = adsgram_page_init,
       eligibility_pending = 0, effects = [] \<rparr>"

section \<open>ShrinkEarn missions (shrinkearn.js)\<close>

text \<open>
  \<open>ShrinkEarnState.userId\<close> and \<open>ShrinkEarnState.activeMission\<close> are \<open>null\<close> or a text;
  the mission id reaches \<open>startShrinkEarnMission\<close> as the string literal the mission
  list rendered into the \<open>onclick\<close> attribute. \<open>in_flight\<close> lists the missions whose
  \<open>/shrinkearn/start\<close> request is awaited, oldest first. \<open>start_buttons\<close> holds, for the
  missions that have a \<open>.start-btn\<close>, whether it shows the spinner and is disabled.
\<close>

record start_response =
  sr_success :: bool
  sr_mission :: bool
  sr_shortened_url :: string
  sr_error_es :: "string option"
  sr_error :: "string option"
  sr_cooldown_remaining :: "nat option"

record shrinkearn =
  se_userId :: "string option"
  activeMission :: "string option"
  in_flight :: "string list"
  start_buttons :: "string \<rightharpoonup> bool"
  se_haptic :: bool
  se_effects :: "effect list"

definition showToast :: "string \<Rightarrow> string \<Rightarrow> shrinkearn \<Rightarrow> shrinkearn" where
  "showToast message type s = s \<lparr> se_effects := se_effects s @ [Toast message type] \<rparr>"

text \<open>
  \<open>startShrinkEarnMission\<close> up to its \<open>await fetch\<close>:
  \<^verbatim>\<open>
  if (!ShrinkEarnState.userId) { showToast('Error: Usuario no identificado', 'error'); return; }
  if (ShrinkEarnState.activeMission) { return; }
  ShrinkEarnState.activeMission = missionId;
  const missionEl = document.querySelector(`[data-mission-id="${missionId}"]`);
  if (missionEl) { ... spinner on the mission's button ... }
  try {
      const response = await fetch('/shrinkearn/start', {...});
  \<close>
  \<open>document.querySelector\<close> throws a \<open>SyntaxError\<close> when the text it is given is no
  valid selector; \<open>selector_ok\<close> is the browser's verdict on the selector made from
  the mission id. The call stands before the \<open>try\<close>: when it throws, the flag is
  already set, no request is sent and the \<open>finally\<close> block is never entered. The result
  is the state and how the call stands: \<open>Fulfilled\<close> when it has returned,
  \<open>Rejected\<close> when the exception left it, \<open>Pending\<close> when it awaits the request.
\<close>

definition startShrinkEarnMission ::
  "(string \<Rightarrow> bool) \<Rightarrow> string \<Rightarrow> shrinkearn \<Rightarrow> shrinkearn \<times> unit promise" where
  "startShrinkEarnMission selector_ok missionId s =
     (if \<not> truthy_str (se_userId s) then
        (showToast ''Error: Usuario no identificado'' ''error'' s, Fulfilled ())
      else if truthy_str (activeMission s) then (s, Fulfilled ())
      else
        let s1 = s \<lparr> activeMission := Some missionId \<rparr> in
        if \<not> selector_ok missionId then
          (s1, Rejected (JsError (Some ''SyntaxError'') None))
        else
          (s1 \<lparr> start_buttons :=
                  (if start_buttons s1 missionId \<noteq> None
                   then (start_buttons s1)(missionId \<mapsto> True)
                   else start_buttons s1),
                in_flight := in_flight s1 @ [missionId],
                se_effects := se_effects s1 @ [Request ''POST'' ''/shrinkearn/start''] \<rparr>,
           Pending))"

text \<open>
  The rest of the function, run when the request of the flow at position \<open>i\<close> of
  \<open>in_flight\<close> has settled: the \<open>try\<close> body after the \<open>await\<close>, the \<open>catch\<close> (also
  reached when \<open>showMissionStartModal\<close> throws on an answer without \<open>mission\<close>), and the
  \<open>finally\<close> that clears \<open>activeMission\<close>, restores the button and schedules the refresh.
\<close>

definition mission_answered :: "start_response \<Rightarrow> shrinkearn \<Rightarrow> shrinkearn" where
  "mission_answered data s =
     (if sr_success data then
        let s1 = (if se_haptic s
                  then s \<lparr> se_effects := se_effects s @ [Haptic ''impactOccurred'' ''medium''] \<rparr>
                  else s)
        in if sr_mission data then
             s1 \<lparr> se_effects := se_effects s1 @
                    [Timer 10 ''missionModal'', Timer 500 (''open '' @ sr_shortened_url data)] \<rparr>
           else showToast connection_error ''error'' s1
      else
        let errorMsg =
              (if truthy_str (sr_error_es data) then the (sr_error_es data)
               else if truthy_str (sr_error data) then the (sr_error data)
               else ''Error al iniciar misi'' @ [CHR 0xC3, CHR 0xB3] @ ''n'');
            s1 = showToast errorMsg ''error'' s
        in case sr_cooldown_remaining data of
             None \<Rightarrow> s1
           | Some c \<Rightarrow>
               if c \<noteq> 0 then showToast (''Espera '' @ formatCooldown c) ''warning'' s1 else s1)"

definition mission_finally :: "string \<Rightarrow> shrinkearn \<Rightarrow> shrinkearn" where
  "mission_finally missionId s =
     s \<lparr> activeMission := None,
          start_buttons :=
            (if start_buttons s missionId \<noteq> None then (start_buttons s)(missionId \<mapsto> False)
             else start_buttons s),
          se_effects := se_effects s @ [Timer 2000 ''refreshShrinkEarnMissions''] \<rparr>"

definition mission_settled :: "nat \<Rightarrow> start_response option \<Rightarrow> shrinkearn \<Rightarrow> shrinkearn" where
  "mission_settled i answer s =
     (if i < length (in_flight s) then
        let missionId = in_flight s ! i;
            s1 = s \<lparr> in_flight := take i (in_flight s) @ drop (Suc i) (in_flight s) \<rparr>;
            s2 = (case answer of
                    None \<Rightarrow> showToast connection_error ''error'' s1
                  | Some data \<Rightarrow> mission_answered data s1)
        in mission_finally missionId s2
      else s)"

datatype mission_event = Trigger string | Settled nat "start_response option"

fun mission_step :: "(string \<Rightarrow> bool) \<Rightarrow> shrinkearn \<Rightarrow> mission_event \<Rightarrow> shrinkearn" where
  "mission_step selector_ok s (Trigger missionId) =
     fst (startShrinkEarnMission selector_ok missionId s)"
| "mission_step selector_ok s (Settled i answer) = mission_settled i answer s"

definition mission_run ::
  "(string \<Rightarrow> bool) \<Rightarrow> shrinkearn \<Rightarrow> mission_event list \<Rightarrow> shrinkearn" where
  "mission_run selector_ok s evs = foldl (mission_step selector_ok) s evs"

fun trigger_id :: "mission_event \<Rightarrow> string option" where
  "trigger_id (Trigger missionId) = Some missionId"
| "trigger_id (Settled i answer) = None"

text \<open>
  The events whose mission id, if they carry one, is truthy and makes a valid selector.
\<close>

fun usable_trigger :: "(string \<Rightarrow> bool) \<Rightarrow> mission_event \<Rightarrow> bool" where
  "usable_trigger selector_ok (Trigger missionId) = (missionId \<noteq> [] \<and> selector_ok missionId)"
| "usable_trigger selector_ok (Settled i answer) = True"

section \<open>Observations and invariants\<close>

fun is_Toast :: "effect \<Rightarrow> bool" where
  "is_Toast (Toast message type) = True"
| "is_Toast e = False"

text \<open>
  The OnClickA loader has appended no script yet, or exactly one, which is in the
  document.
\<close>

definition onclicka_inv :: "onclicka_page \<Rightarrow> bool" where
  "onclicka_inv s =
     (if onclicka_injected s = 0 then True
      else onclicka_injected s = 1 \<and> 0 < onclicka_tags s)"

text \<open>
  The busy flag of ShrinkEarn agrees with the flows in flight: one flow when
  \<open>activeMission\<close> is truthy, none otherwise.
\<close>

definition mission_inv :: "shrinkearn \<Rightarrow> bool" where
  "mission_inv s =
     (if truthy_str (activeMission s) then length (in_flight s) = 1 else in_flight s = [])"

section \<open>Sample inputs\<close>

text \<open>Concrete page loads and devices, on which the theorems below are run.\<close>

definition sample_cached_text :: string where
  "sample_cached_text = ''{'' @ [CHR 0x22] @ ''vpn_detected'' @ [CHR 0x22] @ '':true}''"

definition sample_clear_text :: string where
  "sample_clear_text = ''{'' @ [CHR 0x22] @ ''vpn_detected'' @ [CHR 0x22] @ '':false}''"

definition sample_parseInt :: "string \<Rightarrow> int option" where
  "sample_parseInt s = (if s = ''1700000000000'' then Some 1700000000000 else None)"

definition sample_JSON_parse :: "string \<Rightarrow> vpn_result option" where
  "sample_JSON_parse s =
     (if s = sample_cached_text then Some \<lparr> vpn_detected = True, vpn_error = False \<rparr>
      else if s = sample_clear_text then Some \<lparr> vpn_detected = False, vpn_error = False \<rparr>
      else None)"

definition sample_JSON_stringify :: "vpn_result \<Rightarrow> string" where
  "sample_JSON_stringify r = (if vpn_detected r then sample_cached_text else sample_clear_text)"

definition sample_server_down :: "nat \<Rightarrow> fetch_outcome" where
  "sample_server_down k = FetchRejected"

definition sample_server_flaky :: "nat \<Rightarrow> fetch_outcome" where
  "sample_server_flaky k =
     (if k = 0 then ResponseNotOk
      else Body (JsonObject \<lparr> vpn_detected = False, vpn_error = False \<rparr>))"

definition sample_server_null :: "nat \<Rightarrow> fetch_outcome" where
  "sample_server_null k = Body JsonNull"

definition sample_server_silent :: "nat \<Rightarrow> fetch_outcome" where
  "sample_server_silent k = (if k = 0 then FetchRejected else FetchPending)"

definition sample_env :: "string \<Rightarrow> (nat \<Rightarrow> fetch_outcome) \<Rightarrow> vpn_env" where
  "sample_env path server =
     \<lparr> pathname = path, search_user_id = Some ''42'', now_at_check = 1700000030000,
       now_at_store = 1700000030900, parseInt = sample_parseInt,
       JSON_parse = sample_JSON_parse, JSON_stringify = sample_JSON_stringify,
       attempt = server \<rparr>"

definition sample_storage :: "string \<rightharpoonup> string" where
  "sample_storage =
     [''vpn_check_result'' \<mapsto> sample_cached_text, ''vpn_check_time'' \<mapsto> ''1700000000000'']"

definition sample_readings :: readings where
  "sample_readings =
     \<lparr> canvas = ''1x2y3z'', webgl = ''k9f3a'', audio = ''audio_3f.2k1'',
       screen_width = ''390'', screen_height = ''844'', screen_colorDepth = ''24'',
       screen_pixelRatio = ''3'', browser_platform = ''iPhone'',
       browser_timezone = ''America/Bogota'', browser_hardwareConcurrency = ''unknown'',
       browser_maxTouchPoints = ''5'', browser_plugins = ''0'',
       storage_fingerprint = ''ls:true|ss:true|idb:true'' \<rparr>"

definition sample_world :: world where
  "sample_world =
     \<lparr> url_user_id = Some ''42'', telegram_user_id = None, haptic_feedback = True,
       sdk_script = ScriptLoads, init_throws = None, show_result = Fulfilled True,
       activate_result =
         Fulfilled \<lparr> ad_success = False, ad_pts_earned = None,
                     ad_error = Some ''Ya tienes un boost activo'' \<rparr> \<rparr>"

definition sample_page :: boost_page where
  "sample_page =
     \<lparr> styles_present = True, modal_display = Some ''flex'', accept_disabled = Some False,
       cancel_disabled = Some False, loading_display = Some ''none'',
       sdk = adsgram_page_init, eligibility_pending = 0, effects = [] \<rparr>"

text \<open>
  An id without double quote, backslash or line break stands inside
  \<open>[data-mission-id="..."]\<close> as a plain string, and the selector is valid.
\<close>

definition sample_selector_ok :: "string \<Rightarrow> bool" where
  "sample_selector_ok missionId =
     list_all (\<lambda>c. c \<noteq> CHR 0x22 \<and> c \<noteq> CHR 0x5C \<and> c \<noteq> CHR 0x0A \<and> c \<noteq> CHR 0x0D
                    \<and> c \<noteq> CHR 0x0C) missionId"

definition sample_shrinkearn :: shrinkearn where
  "sample_shrinkearn =
     \<lparr> se_userId = Some ''42'', activeMission = None, in_flight = [],
       start_buttons = [''quick'' \<mapsto> False], se_haptic = True, se_effects = [] \<rparr>"

section \<open>Rendering of numbers\<close>





lemma rendering_examples:
  "toString 0 = ''0''" "toString 65 = ''65''" "toString_radix 36 96354 = ''22ci''"
  "hashCode ''abc'' = ''22ci''" "hashCode [] = ''0''"
  by (simp_all add: toString_def hashCode_def toString_radix.simps digit_char_def)

section \<open>User identification and cooldown displays\<close>

text \<open>
  C4 as stated: when the Telegram WebApp user id and the URL parameter \<open>user_id\<close> are
  both non-empty, \<open>getUserId\<close> returns the Telegram value. The code reads the URL first:
  with \<open>?user_id=111\<close> and Telegram user 222 it returns the string \<open>111\<close>.
\<close>

theorem C4_getUserId_counterexample:
  "truthy_str (Some ''111'') \<and> truthy_num (Some 222)
   \<and> getUserId (Some ''111'') (Some 222) = IdStr ''111''
   \<and> getUserId (Some ''111'') (Some 222) \<noteq> IdNum 222"
  by (simp add: getUserId_def truthy_str_def truthy_num_def truthy_id_def)

text \<open>
  C4, amended: the URL parameter \<open>user_id\<close> comes first. A non-empty URL value is
  returned whatever the Telegram context holds; the Telegram user id is returned only
  when the URL value is missing or empty; with neither source the result is falsy.
\<close>

theorem C4_getUserId_priority:
  "(truthy_str url \<longrightarrow> getUserId url tg = IdStr (the url))
   \<and> (\<not> truthy_str url \<and> truthy_num tg \<longrightarrow> getUserId url tg = IdNum (the tg))
   \<and> (\<not> truthy_str url \<and> \<not> truthy_num tg \<longrightarrow> \<not> truthy_id (getUserId url tg))"
  by (auto simp: getUserId_def truthy_str_def truthy_num_def truthy_id_def
           split: option.splits)

theorem C4_getUserId_priority_witness:
  "truthy_str (Some ''111'') \<and> getUserId (Some ''111'') (Some 222) = IdStr ''111''
   \<and> \<not> truthy_str None \<and> truthy_num (Some 222) \<and> getUserId None (Some 222) = IdNum 222
   \<and> \<not> truthy_str (Some []) \<and> \<not> truthy_num None \<and> \<not> truthy_id (getUserId (Some []) None)"
  using C4_getUserId_priority [of "Some ''111''" "Some 222"]
        C4_getUserId_priority [of None "Some 222"]
        C4_getUserId_priority [of "Some []" None]
  by (simp add: truthy_str_def truthy_num_def)




section \<open>DbLoader\<close>

lemma activeRequests_createLoaderElement [simp]:
  "activeRequests (createLoaderElement s) = activeRequests s"
  by (simp add: createLoaderElement_def split: option.splits)

lemma activeRequests_poll [simp]: "activeRequests (poll t s) = activeRequests s"
  by (simp add: poll_def stopPolling_def)

lemma activeRequests_show: "activeRequests (db_show m s) = activeRequests s + 1"
  by (simp add: db_show_def Let_def startPolling_def updateMessage_def)

lemma activeRequests_hide: "activeRequests (db_hide st s) = max 0 (activeRequests s - 1)"
  by (simp add: db_hide_def Let_def stopPolling_def updateMessage_def)

lemma activeRequests_step_nonneg:
  "0 \<le> activeRequests s \<Longrightarrow> 0 \<le> activeRequests (db_step s ev)"
proof (cases ev)
  case (Show m)
  assume "0 \<le> activeRequests s"
  with Show show ?thesis by (simp add: activeRequests_show)
next
  case (Hide st)
  then show ?thesis by (simp add: activeRequests_hide)
next
  case FadeTimeout
  assume "0 \<le> activeRequests s"
  with FadeTimeout show ?thesis by (simp add: fade_timeout_def)
next
  case (PollSettled a)
  assume "0 \<le> activeRequests s"
  with PollSettled show ?thesis
    by (simp add: poll_settled_def Let_def updateMessage_def split: option.splits)
next
  case (PollTimerFired t)
  assume "0 \<le> activeRequests s"
  with PollTimerFired show ?thesis by simp
qed

lemma activeRequests_run_nonneg:
  "0 \<le> activeRequests s \<Longrightarrow> 0 \<le> activeRequests (db_run s evs)"
  unfolding db_run_def
  by (induction evs arbitrary: s) (simp_all add: activeRequests_step_nonneg)

lemma hide_while_busy:
  assumes "0 < activeRequests (db_hide st s)"
  shows "db_hide st s = s \<lparr> activeRequests := activeRequests s - 1 \<rparr>"
proof -
  from assms have "0 < max 0 (activeRequests s - 1)"
    by (simp add: activeRequests_hide)
  then have "0 < activeRequests s - 1" by simp
  then show ?thesis by (simp add: db_hide_def Let_def max_def)
qed

lemma hide_overlay_hidden_unchanged:
  "map_option db_loader_hidden (document_overlay (db_hide st s)) =
   map_option db_loader_hidden (document_overlay s)"
  by (cases "document_overlay s")
     (simp_all add: db_hide_def Let_def stopPolling_def updateMessage_def)

lemma hide_schedules_only_at_zero:
  assumes "fade_timers (db_hide st s) \<noteq> fade_timers s"
  shows "activeRequests (db_hide st s) = 0"
proof (rule ccontr)
  assume nz: "activeRequests (db_hide st s) \<noteq> 0"
  have "0 \<le> activeRequests (db_hide st s)" by (simp add: activeRequests_hide)
  with nz have "0 < activeRequests (db_hide st s)" by simp
  then have "db_hide st s = s \<lparr> activeRequests := activeRequests s - 1 \<rparr>"
    by (rule hide_while_busy)
  then have "fade_timers (db_hide st s) = fade_timers s" by simp
  with assms show False by simp
qed

text \<open>
  C10: over every interleaving of \<open>show\<close> and \<open>hide\<close> the counter never becomes negative
  (\<open>activeRequests_run_nonneg\<close> above), and a \<open>hide\<close> after which \<open>activeRequests\<close> is
  still positive is to leave the overlay visible. The callback that \<open>hide\<close> schedules
  when it reaches 0 is never cancelled. Take a request that ends, two more that start
  before \<open>fadeOutDelay\<close> has passed, the callback, and the end of one of the two: after
  the two \<open>show\<close> calls the overlay is visible with two requests active; the callback
  hides it; and after the last \<open>hide\<close> one request is still active and the overlay is
  hidden.
\<close>

theorem C10_stale_fade_timeout:
  "activeRequests
     (db_run (db_loader_init None) [Show ''a'', Hide ''success'', Show ''b'', Show ''c'']) = 2
   \<and> map_option db_loader_hidden
       (document_overlay
          (db_run (db_loader_init None) [Show ''a'', Hide ''success'', Show ''b'', Show ''c'']))
       = Some False
   \<and> activeRequests
       (db_run (db_loader_init None)
          [Show ''a'', Hide ''success'', Show ''b'', Show ''c'', FadeTimeout]) = 2
   \<and> map_option db_loader_hidden
       (document_overlay
          (db_run (db_loader_init None)
             [Show ''a'', Hide ''success'', Show ''b'', Show ''c'', FadeTimeout]))
       = Some True
   \<and> activeRequests
       (db_run (db_loader_init None)
          [Show ''a'', Hide ''success'', Show ''b'', Show ''c'', FadeTimeout, Hide ''success''])
       = 1
   \<and> map_option db_loader_hidden
       (document_overlay
          (db_run (db_loader_init None)
             [Show ''a'', Hide ''success'', Show ''b'', Show ''c'', FadeTimeout,
              Hide ''success'']))
       = Some True"
  by (simp add: db_run_def db_loader_init_def db_show_def db_hide_def fade_timeout_def
        createLoaderElement_def updateMessage_def startPolling_def stopPolling_def poll_def
        Let_def)

section \<open>VPN gate\<close>

lemma vpn_retry_loop_exhausted:
  "vpn_retry_loop server (Suc (Suc 0)) result evs = (result, evs, Returned)"
  by (simp add: vpn_retry_loop.simps [of server "Suc (Suc 0)"] VPN_CHECK_CONFIG_def)

lemma vpn_retry_loop_second:
  "vpn_retry_loop server (Suc 0) result evs =
     (case checkVPNStatus (server (Suc 0)) of
        None \<Rightarrow> (result, evs @ [Fetch ''/api/vpn-check''], Suspended)
      | Some JsonNull \<Rightarrow> (JsonNull, evs @ [Fetch ''/api/vpn-check''], Threw)
      | Some (JsonObject r) \<Rightarrow>
          if \<not> vpn_error r then (JsonObject r, evs @ [Fetch ''/api/vpn-check''], Returned)
          else (JsonObject r, evs @ [Fetch ''/api/vpn-check'', Sleep 500], Returned))"
  by (simp add: vpn_retry_loop.simps [of server "Suc 0"] vpn_retry_loop_exhausted
        VPN_CHECK_CONFIG_def Let_def split: option.splits json_body.splits)

lemma vpn_retry_loop_from_0:
  "vpn_retry_loop server 0 result evs =
     (case checkVPNStatus (server 0) of
        None \<Rightarrow> (result, evs @ [Fetch ''/api/vpn-check''], Suspended)
      | Some JsonNull \<Rightarrow> (JsonNull, evs @ [Fetch ''/api/vpn-check''], Threw)
      | Some (JsonObject r) \<Rightarrow>
          if \<not> vpn_error r then (JsonObject r, evs @ [Fetch ''/api/vpn-check''], Returned)
          else vpn_retry_loop server (Suc 0) (JsonObject r)
                 (evs @ [Fetch ''/api/vpn-check'', Sleep 500]))"
  by (simp add: vpn_retry_loop.simps [of server 0] VPN_CHECK_CONFIG_def Let_def
        split: option.splits json_body.splits)

lemma initVPNCheck_fetches:
  "length (filter is_Fetch (events (initVPNCheck env st))) \<le> 2"
  by (simp add: initVPNCheck_def vpn_retry_loop_from_0 vpn_retry_loop_second
        redirectToBlockedPage_def Let_def
      split: option.splits json_body.splits completion.splits)

lemma initVPNCheck_uncached:
  assumes "pathname env \<noteq> ''/vpn-blocked''" "\<not> startsWith (pathname env) ''/admin''"
    "\<not> cache_is_fresh env st"
  shows "filter is_network (events (initVPNCheck env st)) =
     (case checkVPNStatus (attempt env 0) of
        Some (JsonObject r0) \<Rightarrow>
          if \<not> vpn_error r0 then [Fetch ''/api/vpn-check'']
          else
            (case checkVPNStatus (attempt env 1) of
               Some (JsonObject r1) \<Rightarrow>
                 if \<not> vpn_error r1 then
                   [Fetch ''/api/vpn-check'', Sleep 500, Fetch ''/api/vpn-check'']
                 else [Fetch ''/api/vpn-check'', Sleep 500, Fetch ''/api/vpn-check'', Sleep 500]
             | _ \<Rightarrow> [Fetch ''/api/vpn-check'', Sleep 500, Fetch ''/api/vpn-check''])
      | _ \<Rightarrow> [Fetch ''/api/vpn-check''])"
  using assms
  by (auto simp: initVPNCheck_def vpn_retry_loop_from_0 vpn_retry_loop_second
        redirectToBlockedPage_def Let_def VPN_CHECK_CONFIG_def
        split: option.splits json_body.splits)

lemma initVPNCheck_uncached_outcome:
  assumes "pathname env \<noteq> ''/vpn-blocked''" "\<not> startsWith (pathname env) ''/admin''"
    "\<not> cache_is_fresh env st"
  shows "outcome (initVPNCheck env st) =
     (case checkVPNStatus (attempt env 0) of
        None \<Rightarrow> Suspended
      | Some JsonNull \<Rightarrow> Threw
      | Some (JsonObject r0) \<Rightarrow>
          if \<not> vpn_error r0 then Returned
          else
            (case checkVPNStatus (attempt env 1) of
               None \<Rightarrow> Suspended
             | Some JsonNull \<Rightarrow> Threw
             | Some (JsonObject r1) \<Rightarrow> Returned))"
  using assms
  by (auto simp: initVPNCheck_def vpn_retry_loop_from_0 vpn_retry_loop_second
        Let_def VPN_CHECK_CONFIG_def
        split: option.splits json_body.splits)

lemma initVPNCheck_cached_detected:
  assumes "pathname env \<noteq> ''/vpn-blocked''" "\<not> startsWith (pathname env) ''/admin''"
    "st ''vpn_check_result'' = Some r" "r \<noteq> []"
    "st ''vpn_check_time'' = Some t" "t \<noteq> []"
    "parseInt env t = Some ts" "now_at_check env - ts < 60000"
    "JSON_parse env r = Some res" "vpn_detected res"
  shows "events (initVPNCheck env st) = [CreateOverlay, redirectToBlockedPage env]"
    and "sessionStorage (initVPNCheck env st) = st"
    and "outcome (initVPNCheck env st) = Returned"
proof -
  from assms have fresh: "cache_is_fresh env st"
    by (simp add: cache_is_fresh_def truthy_str_def VPN_CHECK_CONFIG_def)
  with assms show "events (initVPNCheck env st) = [CreateOverlay, redirectToBlockedPage env]"
    and "sessionStorage (initVPNCheck env st) = st"
    and "outcome (initVPNCheck env st) = Returned"
    by (simp_all add: initVPNCheck_def VPN_CHECK_CONFIG_def)
qed

lemma initVPNCheck_skipped:
  assumes "pathname env = ''/vpn-blocked'' \<or> startsWith (pathname env) ''/admin''"
  shows "events (initVPNCheck env st) = []"
  using assms by (auto simp: initVPNCheck_def)

lemma redirect_target:
  "redirectToBlockedPage env =
     Redirect (''/vpn-blocked'' @
       (if truthy_str (search_user_id env) then ''?user_id='' @ the (search_user_id env)
        else []))"
  by (simp add: redirectToBlockedPage_def Let_def truthy_str_def split: option.splits)

text \<open>
  C5 as stated: on every page load with a cached, unexpired \<open>vpn_detected:true\<close> result
  the browser is sent to \<open>/vpn-blocked\<close>. On \<open>/admin/users\<close>, with such a cache (30
  seconds old), \<open>initVPNCheck\<close> returns before it reads the cache and redirects nowhere.
\<close>

theorem C5_admin_page_counterexample:
  "cache_is_fresh (sample_env ''/admin/users'' sample_server_down) sample_storage
   \<and> JSON_parse (sample_env ''/admin/users'' sample_server_down) sample_cached_text
       = Some \<lparr> vpn_detected = True, vpn_error = False \<rparr>
   \<and> sample_storage ''vpn_check_result'' = Some sample_cached_text
   \<and> events (initVPNCheck (sample_env ''/admin/users'' sample_server_down) sample_storage) = []"
  by (simp add: initVPNCheck_def cache_is_fresh_def sample_env_def sample_storage_def
        sample_parseInt_def sample_JSON_parse_def sample_cached_text_def truthy_str_def
        VPN_CHECK_CONFIG_def startsWith_def)

text \<open>
  C5, amended: on a page other than \<open>/vpn-blocked\<close> whose path does not start with
  \<open>/admin\<close>, when \<open>sessionStorage\<close> holds a non-empty \<open>vpn_check_result\<close> that parses
  to a result with \<open>vpn_detected\<close> set and a \<open>vpn_check_time\<close> less than 60000 ms old,
  \<open>initVPNCheck\<close> creates the overlay and redirects to \<open>/vpn-blocked\<close> (followed by
  \<open>?user_id=\<close> and the URL's user id when there is one), sends no request and leaves
  the storage as it was. On \<open>/vpn-blocked\<close> and under \<open>/admin\<close> it does nothing.
\<close>

theorem C5_cached_vpn_redirect:
  "(pathname env \<noteq> ''/vpn-blocked'' \<and> \<not> startsWith (pathname env) ''/admin''
      \<and> st ''vpn_check_result'' = Some r \<and> r \<noteq> []
      \<and> st ''vpn_check_time'' = Some t \<and> t \<noteq> []
      \<and> parseInt env t = Some ts \<and> now_at_check env - ts < 60000
      \<and> JSON_parse env r = Some res \<and> vpn_detected res
    \<longrightarrow> events (initVPNCheck env st) =
          [CreateOverlay,
           Redirect (''/vpn-blocked'' @
             (if truthy_str (search_user_id env)
              then ''?user_id='' @ the (search_user_id env) else []))]
        \<and> filter is_Fetch (events (initVPNCheck env st)) = []
        \<and> sessionStorage (initVPNCheck env st) = st
        \<and> outcome (initVPNCheck env st) = Returned)
   \<and> (pathname env = ''/vpn-blocked'' \<or> startsWith (pathname env) ''/admin''
    \<longrightarrow> events (initVPNCheck env st) = [])"
proof -
  have "events (initVPNCheck env st) =
          [CreateOverlay,
           Redirect (''/vpn-blocked'' @
             (if truthy_str (search_user_id env)
              then ''?user_id='' @ the (search_user_id env) else []))]
        \<and> filter is_Fetch (events (initVPNCheck env st)) = []
        \<and> sessionStorage (initVPNCheck env st) = st
        \<and> outcome (initVPNCheck env st) = Returned"
    if "pathname env \<noteq> ''/vpn-blocked''" "\<not> startsWith (pathname env) ''/admin''"
      "st ''vpn_check_result'' = Some r" "r \<noteq> []"
      "st ''vpn_check_time'' = Some t" "t \<noteq> []"
      "parseInt env t = Some ts" "now_at_check env - ts < 60000"
      "JSON_parse env r = Some res" "vpn_detected res"
    using initVPNCheck_cached_detected [OF that] by (simp add: redirect_target)
  moreover have "events (initVPNCheck env st) = []"
    if "pathname env = ''/vpn-blocked'' \<or> startsWith (pathname env) ''/admin''"
    using that by (rule initVPNCheck_skipped)
  ultimately show ?thesis by blast
qed

theorem C5_cached_vpn_redirect_witness:
  "events (initVPNCheck (sample_env ''/mining'' sample_server_down) sample_storage) =
     [CreateOverlay, Redirect ''/vpn-blocked?user_id=42'']
   \<and> sessionStorage (initVPNCheck (sample_env ''/mining'' sample_server_down) sample_storage)
       = sample_storage
   \<and> events (initVPNCheck (sample_env ''/vpn-blocked'' sample_server_down) sample_storage) = []"
  using C5_cached_vpn_redirect
          [of "sample_env ''/mining'' sample_server_down" sample_storage sample_cached_text
              "''1700000000000''" 1700000000000 "\<lparr> vpn_detected = True, vpn_error = False \<rparr>"]
        C5_cached_vpn_redirect
          [of "sample_env ''/vpn-blocked'' sample_server_down" sample_storage]
  by (simp add: sample_env_def sample_storage_def sample_parseInt_def sample_JSON_parse_def
        sample_cached_text_def truthy_str_def startsWith_def)

text \<open>
  C6: \<open>initVPNCheck\<close> never calls the endpoint more than twice, whatever the requests
  come to. When the check is not answered from the cache, it calls once if the first
  result is not an error; otherwise it waits 500 ms and calls a second time; if that
  errors too it waits 500 ms once more and goes on with the error result. The loop ends
  after at most these two attempts whenever the attempts settle: normally, or, on a
  \<open>null\<close> body, by the \<open>TypeError\<close> of \<open>result.error\<close> right after that attempt.
\<close>

theorem C6_vpn_retry_bounded:
  "length (filter is_Fetch (events (initVPNCheck env st))) \<le> 2
   \<and> (pathname env \<noteq> ''/vpn-blocked'' \<and> \<not> startsWith (pathname env) ''/admin''
        \<and> \<not> cache_is_fresh env st
      \<longrightarrow> filter is_network (events (initVPNCheck env st)) =
            (case checkVPNStatus (attempt env 0) of
               Some (JsonObject r0) \<Rightarrow>
                 if \<not> vpn_error r0 then [Fetch ''/api/vpn-check'']
                 else
                   (case checkVPNStatus (attempt env 1) of
                      Some (JsonObject r1) \<Rightarrow>
                        if \<not> vpn_error r1 then
                          [Fetch ''/api/vpn-check'', Sleep 500, Fetch ''/api/vpn-check'']
                        else [Fetch ''/api/vpn-check'', Sleep 500, Fetch ''/api/vpn-check'',
                              Sleep 500]
                    | _ \<Rightarrow> [Fetch ''/api/vpn-check'', Sleep 500, Fetch ''/api/vpn-check''])
             | _ \<Rightarrow> [Fetch ''/api/vpn-check''])
          \<and> outcome (initVPNCheck env st) =
            (case checkVPNStatus (attempt env 0) of
               None \<Rightarrow> Suspended
             | Some JsonNull \<Rightarrow> Threw
             | Some (JsonObject r0) \<Rightarrow>
                 if \<not> vpn_error r0 then Returned
                 else
                   (case checkVPNStatus (attempt env 1) of
                      None \<Rightarrow> Suspended
                    | Some JsonNull \<Rightarrow> Threw
                    | Some (JsonObject r1) \<Rightarrow> Returned))
          \<and> (attempt env 0 \<noteq> FetchPending \<and> attempt env 1 \<noteq> FetchPending
              \<longrightarrow> outcome (initVPNCheck env st) \<noteq> Suspended))"
proof -
  have settles: "outcome (initVPNCheck env st) \<noteq> Suspended"
    if "pathname env \<noteq> ''/vpn-blocked''" "\<not> startsWith (pathname env) ''/admin''"
      "\<not> cache_is_fresh env st"
      "attempt env 0 \<noteq> FetchPending" "attempt env 1 \<noteq> FetchPending"
  proof -
    have a0: "checkVPNStatus (attempt env 0) \<noteq> None"
      using that(4) by (cases "attempt env 0") (simp_all add: checkVPNStatus_def)
    have a1: "checkVPNStatus (attempt env 1) \<noteq> None"
      using that(5) by (cases "attempt env 1") (simp_all add: checkVPNStatus_def)
    from a0 a1 show ?thesis
      unfolding initVPNCheck_uncached_outcome [OF that(1,2,3)]
      by (auto split: option.splits json_body.splits)
  qed
  from initVPNCheck_fetches [of env st] initVPNCheck_uncached [of env st]
       initVPNCheck_uncached_outcome [of env st] settles
  show ?thesis by blast
qed

theorem C6_vpn_retry_bounded_witness:
  "\<not> cache_is_fresh (sample_env ''/mining'' sample_server_flaky) Map.empty
   \<and> filter is_network
       (events (initVPNCheck (sample_env ''/mining'' sample_server_flaky) Map.empty)) =
       [Fetch ''/api/vpn-check'', Sleep 500, Fetch ''/api/vpn-check'']
   \<and> outcome (initVPNCheck (sample_env ''/mining'' sample_server_flaky) Map.empty) = Returned
   \<and> filter is_network
       (events (initVPNCheck (sample_env ''/mining'' sample_server_down) Map.empty)) =
       [Fetch ''/api/vpn-check'', Sleep 500, Fetch ''/api/vpn-check'', Sleep 500]
   \<and> outcome (initVPNCheck (sample_env ''/mining'' sample_server_down) Map.empty) = Returned
   \<and> filter is_network
       (events (initVPNCheck (sample_env ''/mining'' sample_server_null) Map.empty)) =
       [Fetch ''/api/vpn-check'']
   \<and> outcome (initVPNCheck (sample_env ''/mining'' sample_server_null) Map.empty) = Threw
   \<and> filter is_network
       (events (initVPNCheck (sample_env ''/mining'' sample_server_silent) Map.empty)) =
       [Fetch ''/api/vpn-check'', Sleep 500, Fetch ''/api/vpn-check'']
   \<and> outcome (initVPNCheck (sample_env ''/mining'' sample_server_silent) Map.empty)
       = Suspended"
  using C6_vpn_retry_bounded [of "sample_env ''/mining'' sample_server_flaky" Map.empty]
        C6_vpn_retry_bounded [of "sample_env ''/mining'' sample_server_down" Map.empty]
        C6_vpn_retry_bounded [of "sample_env ''/mining'' sample_server_null" Map.empty]
        C6_vpn_retry_bounded [of "sample_env ''/mining'' sample_server_silent" Map.empty]
  by (simp add: sample_env_def sample_server_flaky_def sample_server_down_def
        sample_server_null_def sample_server_silent_def
        cache_is_fresh_def truthy_str_def checkVPNStatus_def startsWith_def
        VPN_CHECK_CONFIG_def)

section \<open>Device fingerprint\<close>

lemma first_call_caches:
  assumes "t1' \<noteq> 0"
  shows "\<exists>ts. ts \<noteq> 0 \<and>
           localStorage (getStoredFingerprint d1 t1 t1' ls0) ''_se_device_fp'' =
             Some (JsonText \<lparr> fp_hash = returned (getStoredFingerprint d1 t1 t1' ls0),
                              fp_timestamp = Some ts \<rparr>)"
  using assms
  by (auto simp: getStoredFingerprint_def regenerate_def Let_def truthy_num_def
           split: option.splits stored_text.splits)

lemma second_call_hit:
  assumes "ls ''_se_device_fp'' = Some (JsonText \<lparr> fp_hash = h, fp_timestamp = Some ts \<rparr>)"
    "ts \<noteq> 0" "t2 - ts < 86400000"
  shows "getStoredFingerprint d t2 t2' ls =
           \<lparr> returned = h, localStorage = ls, generate_calls = 0 \<rparr>"
  using assms by (simp add: getStoredFingerprint_def truthy_num_def)

lemma call_stale:
  assumes "cached_timestamp ls = Some ts" "86400000 \<le> t2 - ts"
  shows "getStoredFingerprint d t2 t2' ls = regenerate d t2' ls"
  using assms
  by (auto simp: getStoredFingerprint_def cached_timestamp_def truthy_num_def
           split: option.splits stored_text.splits)

text \<open>
  C8: take any content of \<open>localStorage\<close> and a first call of the getter (the clock not
  standing at the epoch when it writes). Afterwards a timestamp is cached. A second call
  made less than 24 hours (86400000 ms) after that timestamp returns the same hash as
  the first, calls \<open>generate\<close> not at all and leaves the entry alone, whatever the device
  reads by then; a second call made 24 hours or more after it calls \<open>generate\<close>, returns
  the fresh hash and stores it with the clock's new reading.
\<close>

theorem C8_fingerprint_cache:
  assumes "t1' \<noteq> 0"
  shows
  "(let first = getStoredFingerprint d1 t1 t1' ls0;
        second = getStoredFingerprint d2 t2 t2' (localStorage first);
        ts = the (cached_timestamp (localStorage first))
    in cached_timestamp (localStorage first) \<noteq> None \<and>
       (t2 - ts < 86400000 \<longrightarrow>
          returned second = returned first \<and> localStorage second = localStorage first
          \<and> generate_calls second = 0) \<and>
       (86400000 \<le> t2 - ts \<longrightarrow>
          generate_calls second = 1 \<and> returned second = Some (generate d2)
          \<and> localStorage second ''_se_device_fp'' =
              Some (JsonText \<lparr> fp_hash = Some (generate d2), fp_timestamp = Some t2' \<rparr>)))"
proof -
  define first where "first = getStoredFingerprint d1 t1 t1' ls0"
  from first_call_caches [OF assms, of d1 t1 ls0] obtain ts where
    ts: "ts \<noteq> 0"
    and entry: "localStorage first ''_se_device_fp'' =
             Some (JsonText \<lparr> fp_hash = returned first, fp_timestamp = Some ts \<rparr>)"
    unfolding first_def by blast
  from entry have cached: "cached_timestamp (localStorage first) = Some ts"
    by (simp add: cached_timestamp_def)
  have hit: "t2 - ts < 86400000 \<Longrightarrow>
      getStoredFingerprint d2 t2 t2' (localStorage first) =
        \<lparr> returned = returned first, localStorage = localStorage first, generate_calls = 0 \<rparr>"
    using entry ts by (rule second_call_hit)
  have stale: "86400000 \<le> t2 - ts \<Longrightarrow>
      getStoredFingerprint d2 t2 t2' (localStorage first) =
        regenerate d2 t2' (localStorage first)"
    using cached by (rule call_stale)
  show ?thesis
    unfolding Let_def first_def [symmetric]
    using cached hit stale by (auto simp: regenerate_def Let_def)
qed

theorem C8_fingerprint_cache_witness:
  "(1700000000004 :: int) \<noteq> 0
   \<and> returned
        (getStoredFingerprint sample_readings 1700003600000 1700003600005
           (localStorage
              (getStoredFingerprint sample_readings 1700000000000 1700000000004 Map.empty)))
       = Some (generate sample_readings)
   \<and> generate_calls
        (getStoredFingerprint sample_readings 1700003600000 1700003600005
           (localStorage
              (getStoredFingerprint sample_readings 1700000000000 1700000000004 Map.empty)))
       = 0
   \<and> generate_calls
        (getStoredFingerprint sample_readings 1700086400004 1700086400009
           (localStorage
              (getStoredFingerprint sample_readings 1700000000000 1700000000004 Map.empty)))
       = 1"
  using C8_fingerprint_cache
          [of 1700000000004 sample_readings 1700000000000 Map.empty sample_readings
              1700003600000 1700003600005]
        C8_fingerprint_cache
          [of 1700000000004 sample_readings 1700000000000 Map.empty sample_readings
              1700086400004 1700086400009]
  by (simp add: Let_def getStoredFingerprint_def regenerate_def cached_timestamp_def
        truthy_num_def)

section \<open>Ad SDK loaders\<close>

lemma onclicka_inv_step: "onclicka_inv s \<Longrightarrow> onclicka_inv (onclicka_step s ev)"
  by (cases ev)
     (auto simp: onclicka_inv_def loadOnClickaSDK_def onclicka_onload_def onclicka_onerror_def
        split: if_splits)

lemma onclicka_inv_run: "onclicka_inv s \<Longrightarrow> onclicka_inv (onclicka_run s evs)"
  unfolding onclicka_run_def
  by (induction evs arbitrary: s) (simp_all add: onclicka_inv_step)

lemma onclicka_once:
  assumes "onclicka_injected s = 0"
  shows "onclicka_injected (onclicka_run s evs) \<le> 1"
proof -
  from assms have "onclicka_inv s" by (simp add: onclicka_inv_def)
  then have "onclicka_inv (onclicka_run s evs)" by (rule onclicka_inv_run)
  then show ?thesis by (auto simp: onclicka_inv_def split: if_splits)
qed

lemma onclicka_present:
  assumes "onclickaReady s \<or> 0 < onclicka_tags s"
  shows "snd (loadOnClickaSDK s) = Fulfilled True
         \<and> onclicka_tags (fst (loadOnClickaSDK s)) = onclicka_tags s
         \<and> onclicka_injected (fst (loadOnClickaSDK s)) = onclicka_injected s"
  using assms by (auto simp: loadOnClickaSDK_def)

lemma adsgram_global_present:
  assumes "window_Adsgram s"
  shows "adsgram_scripts (fst (initAdsgram e s)) = adsgram_scripts s
         \<and> snd (initAdsgram None s) = Fulfilled ()"
  using assms by (auto simp: initAdsgram_def Adsgram_init_def split: option.splits)

lemma adsgram_global_absent:
  assumes "\<not> window_Adsgram s"
  shows "adsgram_scripts (fst (initAdsgram e s)) = adsgram_scripts s + 1
         \<and> snd (initAdsgram e s) = Pending"
  using assms by (auto simp: initAdsgram_def)

text \<open>
  C9 as stated: over every sequence of calls the SDK script is injected at most once.
  Two calls of \<open>initAdsgram\<close> before the first script has loaded append two script
  elements: the function looks for the SDK global only, and the global is not there yet.
\<close>

theorem C9_adsgram_two_scripts_counterexample:
  "adsgram_scripts (adsgram_run adsgram_page_init [InitCall None, InitCall None]) = 2
   \<and> adsgram_scripts (adsgram_run adsgram_page_init [InitCall None, SdkFailed, InitCall None])
       = 2"
  by (simp add: adsgram_run_def adsgram_page_init_def initAdsgram_def adsgram_onerror_def)

text \<open>
  C9, amended: \<open>loadOnClickaSDK\<close> appends its script at most once over every sequence of
  calls and load events, and a call made when the ready flag is set or a script tag with
  that source is in the document resolves at once and appends nothing. \<open>initAdsgram\<close>
  looks for the SDK global only: a call made once \<open>window.Adsgram\<close> exists appends
  nothing (and resolves when \<open>Adsgram.init\<close> does not throw); a call made while the
  global is absent, be its script still loading or failed, appends one more script
  element and waits for it.
\<close>

theorem C9_sdk_injection:
  "(onclicka_injected s = 0 \<longrightarrow> onclicka_injected (onclicka_run s evs) \<le> 1)
   \<and> (onclickaReady s \<or> 0 < onclicka_tags s \<longrightarrow>
        snd (loadOnClickaSDK s) = Fulfilled True
        \<and> onclicka_tags (fst (loadOnClickaSDK s)) = onclicka_tags s
        \<and> onclicka_injected (fst (loadOnClickaSDK s)) = onclicka_injected s)
   \<and> (window_Adsgram a \<longrightarrow>
        adsgram_scripts (fst (initAdsgram e a)) = adsgram_scripts a
        \<and> snd (initAdsgram None a) = Fulfilled ())
   \<and> (\<not> window_Adsgram a \<longrightarrow>
        adsgram_scripts (fst (initAdsgram e a)) = adsgram_scripts a + 1
        \<and> snd (initAdsgram e a) = Pending)"
  using onclicka_once [of s evs] onclicka_present [of s]
        adsgram_global_present [of a e] adsgram_global_absent [of a e]
  by blast

theorem C9_sdk_injection_witness:
  "onclicka_injected
     (onclicka_run
        \<lparr> onclickaReady = False, onclicka_tags = 0, onclicka_injected = 0,
          onclicka_loading = 0 \<rparr>
        [LoadCall, LoadCall, ScriptFailed, LoadCall, LoadCall]) \<le> 1
   \<and> snd (loadOnClickaSDK
            \<lparr> onclickaReady = False, onclicka_tags = 1, onclicka_injected = 1,
              onclicka_loading = 1 \<rparr>) = Fulfilled True
   \<and> adsgram_scripts
        (fst (initAdsgram None
                \<lparr> window_Adsgram = True, isAdsgramReady = False, adsgramController = False,
                  adsgram_scripts = 1, adsgram_loading = 0 \<rparr>)) = 1
   \<and> adsgram_scripts (fst (initAdsgram None adsgram_page_init)) = 1"
  using C9_sdk_injection
          [of "\<lparr> onclickaReady = False, onclicka_tags = 0, onclicka_injected = 0,
                 onclicka_loading = 0 \<rparr>"
              "[LoadCall, LoadCall, ScriptFailed, LoadCall, LoadCall]"
              "\<lparr> window_Adsgram = True, isAdsgramReady = False, adsgramController = False,
                 adsgram_scripts = 1, adsgram_loading = 0 \<rparr>" None]
        C9_sdk_injection
          [of "\<lparr> onclickaReady = False, onclicka_tags = 1, onclicka_injected = 1,
                 onclicka_loading = 1 \<rparr>" "[]" adsgram_page_init None]
  by (simp add: adsgram_page_init_def)

section \<open>The boost ad flow\<close>

lemma closeBoostModal_buttons [simp]:
  "accept_disabled (closeBoostModal w p) = map_option (\<lambda>_. False) (accept_disabled p)"
  "cancel_disabled (closeBoostModal w p) = map_option (\<lambda>_. False) (cancel_disabled p)"
  by (simp_all add: closeBoostModal_def haptic_def)

lemma finally_block_buttons [simp]:
  "accept_disabled (finally_block w p) = map_option (\<lambda>_. False) (accept_disabled p)"
  "cancel_disabled (finally_block w p) = map_option (\<lambda>_. False) (cancel_disabled p)"
  by (simp_all add: finally_block_def option.map_comp comp_def)

lemma catch_block_buttons [simp]:
  "accept_disabled (fst (catch_block w e p)) = accept_disabled p"
  "cancel_disabled (fst (catch_block w e p)) = cancel_disabled p"
  by (simp_all add: catch_block_def haptic_def showBoostToast_def Let_def split: js_error.splits)

lemma catch_finally_buttons [simp]:
  "accept_disabled (fst (catch_finally w e p)) = map_option (\<lambda>_. False) (accept_disabled p)"
  "cancel_disabled (fst (catch_finally w e p)) = map_option (\<lambda>_. False) (cancel_disabled p)"
  by (simp_all add: catch_finally_def split: prod.splits)
     (metis catch_block_buttons fst_conv)+

lemma catch_finally_settles [simp]: "snd (catch_finally w e p) \<noteq> Pending"
  by (simp add: catch_finally_def catch_block_def Let_def split: prod.splits js_error.splits)

lemma after_activation_buttons [simp]:
  "accept_disabled (fst (after_activation w p)) = map_option (\<lambda>_. False) (accept_disabled p)"
  "cancel_disabled (fst (after_activation w p)) = map_option (\<lambda>_. False) (cancel_disabled p)"
  by (simp_all add: after_activation_def haptic_def)

lemma showBoostToast_buttons [simp]:
  "accept_disabled (showBoostToast m t p) = accept_disabled p"
  "cancel_disabled (showBoostToast m t p) = cancel_disabled p"
  by (simp_all add: showBoostToast_def)

lemma activation_toast_buttons [simp]:
  "accept_disabled (activation_toast d p) = accept_disabled p"
  "cancel_disabled (activation_toast d p) = cancel_disabled p"
  by (simp_all add: activation_toast_def Let_def split: option.splits)

lemma acceptAndShowAd_buttons:
  assumes "snd (acceptAndShowAd w p) \<noteq> Pending"
  shows "accept_disabled (fst (acceptAndShowAd w p)) = map_option (\<lambda>_. False) (accept_disabled p)
       \<and> cancel_disabled (fst (acceptAndShowAd w p)) = map_option (\<lambda>_. False) (cancel_disabled p)"
  using assms
  by (auto simp: acceptAndShowAd_def Let_def option.map_comp comp_def split: promise.splits)

lemma initAdsgram_await_settles:
  assumes "fate \<noteq> ScriptHangs"
  shows "snd (initAdsgram_await fate e s) \<noteq> Pending"
  using assms
  by (cases fate)
     (auto simp: initAdsgram_await_def initAdsgram_def Adsgram_init_def adsgram_onload_def
        adsgram_onerror_def split: option.splits promise.splits prod.splits)

lemma acceptAndShowAd_settles:
  assumes "sdk_script w \<noteq> ScriptHangs" "show_result w \<noteq> Pending"
    "activate_result w \<noteq> Pending"
  shows "snd (acceptAndShowAd w p) \<noteq> Pending"
  using assms(2,3) initAdsgram_await_settles [OF assms(1)]
  by (auto simp: acceptAndShowAd_def Let_def after_activation_def split: promise.splits)

lemma already_active_toast:
  assumes "\<not> ad_success d" "ad_error d = Some e" "str_includes e ''activo''"
  shows "activation_toast d p = showBoostToast (boost_activated '' +15 PTS'') ''success'' p"
    and "activation_toast d p =
         activation_toast \<lparr> ad_success = True, ad_pts_earned = None, ad_error = None \<rparr> p"
  using assms by (auto simp: activation_toast_def truthy_str_def)

lemma already_active_flow:
  assumes "\<not> ad_success d" "ad_error d = Some e" "str_includes e ''activo''"
  shows "acceptAndShowAd (w \<lparr> activate_result := Fulfilled d \<rparr>) p =
         acceptAndShowAd
           (w \<lparr> activate_result :=
                  Fulfilled \<lparr> ad_success = True, ad_pts_earned = None, ad_error = None \<rparr> \<rparr>) p"
proof -
  have "activation_toast d q =
         activation_toast \<lparr> ad_success = True, ad_pts_earned = None, ad_error = None \<rparr> q" for q
    using assms by (rule already_active_toast(2))
  moreover have "catch_finally (w\<lparr>activate_result := r\<rparr>) x q = catch_finally w x q" for r x q
    by (simp add: catch_finally_def catch_block_def finally_block_def closeBoostModal_def
        haptic_def Let_def split: js_error.splits)
  moreover have "after_activation (w\<lparr>activate_result := r\<rparr>) q = after_activation w q" for r q
    by (simp add: after_activation_def finally_block_def closeBoostModal_def haptic_def)
  moreover have "closeBoostModal (w\<lparr>activate_result := r\<rparr>) q = closeBoostModal w q" for r q
    by (simp add: closeBoostModal_def haptic_def)
  moreover have "finally_block (w\<lparr>activate_result := r\<rparr>) q = finally_block w q" for r q
    by (simp add: finally_block_def closeBoostModal_def haptic_def)
  ultimately show ?thesis
    by (simp add: acceptAndShowAd_def Let_def split: promise.splits)
qed

lemma already_active_toasts:
  assumes "snd (initAdsgram_await (sdk_script w) (init_throws w) (sdk p)) = Fulfilled ()"
    "show_result w = Fulfilled True" "activate_result w = Fulfilled d"
    "\<not> ad_success d" "ad_error d = Some e" "str_includes e ''activo''"
  shows "filter is_Toast (effects (fst (acceptAndShowAd w p))) =
         filter is_Toast (effects p) @ [Toast (boost_activated '' +15 PTS'') ''success'']"
  using assms
  by (simp add: acceptAndShowAd_def Let_def already_active_toast(1) after_activation_def
       finally_block_def closeBoostModal_def haptic_def showBoostToast_def)

text \<open>
  C1: when the ad was completed and the activation answer is not a success but carries
  an error text that says the boost is already active (the code looks for \<open>activo\<close> in
  it), the flow shows the success toast: type \<open>success\<close>, the same message as for a
  success answer that names no points, and no other toast. The whole run, page and
  effects, is the one of a genuine success answer.
\<close>

theorem C1_already_active_is_success:
  assumes "\<not> ad_success d" "ad_error d = Some e" "str_includes e ''activo''"
  shows
    "acceptAndShowAd (w \<lparr> activate_result := Fulfilled d \<rparr>) p =
       acceptAndShowAd
         (w \<lparr> activate_result :=
                Fulfilled \<lparr> ad_success = True, ad_pts_earned = None, ad_error = None \<rparr> \<rparr>) p
     \<and> (snd (initAdsgram_await (sdk_script w) (init_throws w) (sdk p)) = Fulfilled ()
          \<and> show_result w = Fulfilled True
        \<longrightarrow> filter is_Toast
              (effects (fst (acceptAndShowAd (w \<lparr> activate_result := Fulfilled d \<rparr>) p))) =
            filter is_Toast (effects p) @ [Toast (boost_activated '' +15 PTS'') ''success''])"
proof -
  have "filter is_Toast
          (effects (fst (acceptAndShowAd (w \<lparr> activate_result := Fulfilled d \<rparr>) p))) =
        filter is_Toast (effects p) @ [Toast (boost_activated '' +15 PTS'') ''success'']"
    if "snd (initAdsgram_await (sdk_script w) (init_throws w) (sdk p)) = Fulfilled ()"
      "show_result w = Fulfilled True"
    using already_active_toasts [of "w \<lparr> activate_result := Fulfilled d \<rparr>" p d e] that assms
    by simp
  with already_active_flow [OF assms, of w p] show ?thesis by blast
qed

theorem C1_already_active_is_success_witness:
  "\<not> ad_success \<lparr> ad_success = False, ad_pts_earned = None,
                   ad_error = Some ''Ya tienes un boost activo'' \<rparr>
   \<and> str_includes ''Ya tienes un boost activo'' ''activo''
   \<and> filter is_Toast (effects (fst (acceptAndShowAd sample_world sample_page))) =
       [Toast (boost_activated '' +15 PTS'') ''success'']
   \<and> acceptAndShowAd sample_world sample_page =
       acceptAndShowAd
         (sample_world \<lparr> activate_result :=
            Fulfilled \<lparr> ad_success = True, ad_pts_earned = None, ad_error = None \<rparr> \<rparr>)
         sample_page"
proof -
  let ?d = "\<lparr> ad_success = False, ad_pts_earned = None,
              ad_error = Some ''Ya tienes un boost activo'' \<rparr>"
  have not_success: "\<not> ad_success ?d" by simp
  have error_text: "ad_error ?d = Some ''Ya tienes un boost activo''" by simp
  have says_active: "str_includes ''Ya tienes un boost activo'' ''activo''"
    by (simp add: startsWith_def)
  have same_world: "sample_world \<lparr> activate_result := Fulfilled ?d \<rparr> = sample_world"
    by (simp add: sample_world_def)
  have loaded: "snd (initAdsgram_await (sdk_script sample_world) (init_throws sample_world)
                      (sdk sample_page)) = Fulfilled ()"
    by (simp add: sample_world_def sample_page_def initAdsgram_await_def initAdsgram_def
          adsgram_onload_def Adsgram_init_def adsgram_page_init_def)
  have shown: "show_result sample_world = Fulfilled True"
    by (simp add: sample_world_def)
  have no_toast_before: "filter is_Toast (effects sample_page) = []"
    by (simp add: sample_page_def)
  note run = C1_already_active_is_success [OF not_success error_text says_active,
                 of sample_world sample_page, unfolded same_world]
  from run have flow: "acceptAndShowAd sample_world sample_page =
       acceptAndShowAd
         (sample_world \<lparr> activate_result :=
            Fulfilled \<lparr> ad_success = True, ad_pts_earned = None, ad_error = None \<rparr> \<rparr>)
         sample_page"
    by (rule conjunct1)
  from run loaded shown
  have "filter is_Toast (effects (fst (acceptAndShowAd sample_world sample_page))) =
        filter is_Toast (effects sample_page) @ [Toast (boost_activated '' +15 PTS'') ''success'']"
    by blast
  with no_toast_before
  have toasts: "filter is_Toast (effects (fst (acceptAndShowAd sample_world sample_page))) =
        [Toast (boost_activated '' +15 PTS'') ''success'']"
    by (simp only: append_Nil)
  show ?thesis
    by (rule conjI [OF not_success conjI [OF says_active conjI [OF toasts flow]]])
qed

text \<open>
  C3: whenever \<open>acceptAndShowAd\<close> ends, by returning or by an exception, after a
  success, an SDK or load error, a cancellation or a failed activation, both buttons
  of the consent modal are enabled (\<open>disabled = false\<close>) if they exist. It ends
  whenever the promises it awaits settle. \<open>closeBoostModal\<close> enables them as well.
\<close>

theorem C3_buttons_reenabled:
  "(snd (acceptAndShowAd w p) \<noteq> Pending \<longrightarrow>
      accept_disabled (fst (acceptAndShowAd w p)) = map_option (\<lambda>_. False) (accept_disabled p)
      \<and> cancel_disabled (fst (acceptAndShowAd w p)) = map_option (\<lambda>_. False) (cancel_disabled p))
   \<and> (sdk_script w \<noteq> ScriptHangs \<and> show_result w \<noteq> Pending \<and> activate_result w \<noteq> Pending
      \<longrightarrow> snd (acceptAndShowAd w p) \<noteq> Pending)
   \<and> accept_disabled (closeBoostModal w p) = map_option (\<lambda>_. False) (accept_disabled p)
   \<and> cancel_disabled (closeBoostModal w p) = map_option (\<lambda>_. False) (cancel_disabled p)"
  using acceptAndShowAd_buttons [of w p] acceptAndShowAd_settles [of w p]
  by simp

theorem C3_buttons_reenabled_witness:
  "snd (acceptAndShowAd sample_world sample_page) = Fulfilled ()
   \<and> accept_disabled (fst (acceptAndShowAd sample_world sample_page)) = Some False
   \<and> cancel_disabled (fst (acceptAndShowAd sample_world sample_page)) = Some False
   \<and> snd (acceptAndShowAd (sample_world \<lparr> sdk_script := ScriptFails \<rparr>) sample_page)
       = Fulfilled ()
   \<and> accept_disabled
       (fst (acceptAndShowAd (sample_world \<lparr> sdk_script := ScriptFails \<rparr>) sample_page))
       = Some False
   \<and> cancel_disabled
       (fst (acceptAndShowAd (sample_world \<lparr> sdk_script := ScriptFails \<rparr>) sample_page))
       = Some False
   \<and> accept_disabled
       (fst (acceptAndShowAd
          (sample_world \<lparr> show_result := Rejected (JsError None (Some ''closed by user'')) \<rparr>)
          sample_page)) = Some False
   \<and> cancel_disabled
       (fst (acceptAndShowAd
          (sample_world \<lparr> show_result := Rejected (JsError None (Some ''closed by user'')) \<rparr>)
          sample_page)) = Some False
   \<and> accept_disabled
       (fst (acceptAndShowAd
          (sample_world \<lparr> activate_result := Rejected (JsError (Some ''Failed to fetch'') None) \<rparr>)
          sample_page)) = Some False
   \<and> cancel_disabled
       (fst (acceptAndShowAd
          (sample_world \<lparr> activate_result := Rejected (JsError (Some ''Failed to fetch'') None) \<rparr>)
          sample_page)) = Some False
   \<and> snd (acceptAndShowAd (sample_world \<lparr> show_result := Rejected Nullish \<rparr>) sample_page)
       = Rejected (JsError (Some ''Cannot read properties'') None)
   \<and> accept_disabled
       (fst (acceptAndShowAd (sample_world \<lparr> show_result := Rejected Nullish \<rparr>) sample_page))
       = Some False"
  using C3_buttons_reenabled [of sample_world sample_page]
        C3_buttons_reenabled [of "sample_world \<lparr> sdk_script := ScriptFails \<rparr>" sample_page]
        C3_buttons_reenabled
          [of "sample_world \<lparr> show_result := Rejected (JsError None (Some ''closed by user'')) \<rparr>"
              sample_page]
        C3_buttons_reenabled
          [of "sample_world \<lparr> activate_result := Rejected (JsError (Some ''Failed to fetch'') None) \<rparr>"
              sample_page]
        C3_buttons_reenabled [of "sample_world \<lparr> show_result := Rejected Nullish \<rparr>" sample_page]
  by (simp add: sample_world_def sample_page_def acceptAndShowAd_def Let_def
        initAdsgram_await_def initAdsgram_def adsgram_onload_def adsgram_onerror_def
        Adsgram_init_def adsgram_page_init_def catch_finally_def catch_block_def
        after_activation_def)

section \<open>Busy flags\<close>

lemma mission_inv_step:
  assumes "mission_inv s" "usable_trigger ok ev"
  shows "mission_inv (mission_step ok s ev)"
proof (cases ev)
  case (Trigger m)
  with assms show ?thesis
    by (auto simp: mission_inv_def startShrinkEarnMission_def showToast_def truthy_str_def
          Let_def split: if_splits)
next
  case (Settled i a)
  show ?thesis
  proof (cases "i < length (in_flight s)")
    case True
    with assms(1) have one: "length (in_flight s) = 1" and i: "i = 0"
      by (auto simp: mission_inv_def split: if_splits)
    have "in_flight (mission_settled i a s) = []"
      using one i by (simp add: mission_settled_def mission_finally_def Let_def
          mission_answered_def showToast_def split: option.splits)
    moreover have "activeMission (mission_settled i a s) = None"
      using True by (simp add: mission_settled_def mission_finally_def Let_def)
    ultimately show ?thesis using Settled by (simp add: mission_inv_def truthy_str_def)
  next
    case False
    with assms(1) Settled show ?thesis by (simp add: mission_settled_def)
  qed
qed

lemma mission_inv_run:
  assumes "mission_inv s" "\<forall>ev \<in> set evs. usable_trigger ok ev"
  shows "mission_inv (mission_run ok s evs)"
  using assms unfolding mission_run_def
  by (induction evs arbitrary: s) (simp_all add: mission_inv_step)

lemma one_mission_in_flight:
  assumes "\<not> truthy_str (activeMission s)" "in_flight s = []"
    "\<forall>ev \<in> set evs. usable_trigger ok ev"
  shows "length (in_flight (mission_run ok s evs)) \<le> 1
         \<and> truthy_str (activeMission (mission_run ok s evs))
             = (in_flight (mission_run ok s evs) \<noteq> [])"
proof -
  from assms(1,2) have "mission_inv s" by (simp add: mission_inv_def)
  then have "mission_inv (mission_run ok s evs)" using assms(3) by (rule mission_inv_run)
  then show ?thesis by (auto simp: mission_inv_def split: if_splits)
qed

lemma busy_trigger_noop:
  assumes "truthy_str (se_userId s)" "truthy_str (activeMission s)"
  shows "startShrinkEarnMission ok m s = (s, Fulfilled ())"
  using assms by (simp add: startShrinkEarnMission_def)

lemma idle_trigger_starts:
  assumes "truthy_str (se_userId s)" "\<not> truthy_str (activeMission s)" "ok m"
  shows "activeMission (fst (startShrinkEarnMission ok m s)) = Some m
         \<and> in_flight (fst (startShrinkEarnMission ok m s)) = in_flight s @ [m]
         \<and> snd (startShrinkEarnMission ok m s) = Pending"
  using assms by (simp add: startShrinkEarnMission_def Let_def)

lemma settle_clears:
  assumes "i < length (in_flight s)"
  shows "activeMission (mission_settled i a s) = None
         \<and> length (in_flight (mission_settled i a s)) = length (in_flight s) - 1"
  using assms
  by (auto simp: mission_settled_def mission_finally_def Let_def mission_answered_def
      showToast_def split: option.splits)

lemma openBoostModal_unguarded:
  assumes "truthy_id (getUserId (url_user_id w) (telegram_user_id w))"
  shows "eligibility_pending (openBoostModal w p) = eligibility_pending p + 1"
  using assms
  by (simp add: openBoostModal_def Let_def createBoostConsentModal_def
        createBoostModalStyles_def)

text \<open>
  Outside the ids of the amended claim. The empty id sets a falsy flag, which guards
  nothing. An id that breaks the selector, here \<open>a"b\<close>, makes \<open>querySelector\<close> throw
  with the flag set: no flow is started, and the flag stays set over every later trigger.
\<close>

lemma empty_mission_id_unguarded:
  "in_flight (mission_run sample_selector_ok sample_shrinkearn [Trigger [], Trigger []])
     = [[], []]"
  by (simp add: mission_run_def sample_shrinkearn_def startShrinkEarnMission_def
        truthy_str_def sample_selector_ok_def)

lemma broken_selector_leaves_flag_set:
  "\<not> sample_selector_ok [CHR ''a'', CHR 0x22, CHR ''b'']"
  "startShrinkEarnMission sample_selector_ok [CHR ''a'', CHR 0x22, CHR ''b''] sample_shrinkearn
     = (sample_shrinkearn \<lparr> activeMission := Some [CHR ''a'', CHR 0x22, CHR ''b''] \<rparr>,
        Rejected (JsError (Some ''SyntaxError'') None))"
  "in_flight
     (mission_run sample_selector_ok sample_shrinkearn
        [Trigger [CHR ''a'', CHR 0x22, CHR ''b''], Trigger ''quick'', Settled 0 None]) = []"
  "activeMission
     (mission_run sample_selector_ok sample_shrinkearn
        [Trigger [CHR ''a'', CHR 0x22, CHR ''b''], Trigger ''quick'', Settled 0 None])
     = Some [CHR ''a'', CHR 0x22, CHR ''b'']"
  by (simp_all add: mission_run_def sample_shrinkearn_def startShrinkEarnMission_def
        mission_settled_def truthy_str_def sample_selector_ok_def Let_def)

text \<open>
  C2 as stated: on every ad-flow controller a second trigger while a flow is in flight is
  a no-op. The boost trigger \<open>openBoostModal\<close> keeps no busy flag: called twice before
  the first eligibility answer arrives, it has two requests in flight, and the second
  call has changed the page.
\<close>

theorem C2_boost_trigger_counterexample:
  "eligibility_pending (boost_run sample_world boost_page_init [OpenBoost]) = 1
   \<and> eligibility_pending (boost_run sample_world boost_page_init [OpenBoost, OpenBoost]) = 2
   \<and> boost_run sample_world boost_page_init [OpenBoost, OpenBoost]
       \<noteq> boost_run sample_world boost_page_init [OpenBoost]"
proof -
  have one: "eligibility_pending (boost_run sample_world boost_page_init [OpenBoost]) = 1"
    by (simp add: boost_run_def openBoostModal_def Let_def createBoostConsentModal_def
          createBoostModalStyles_def sample_world_def boost_page_init_def getUserId_def
          truthy_id_def truthy_num_def)
  have two: "eligibility_pending
               (boost_run sample_world boost_page_init [OpenBoost, OpenBoost]) = 2"
    by (simp add: boost_run_def openBoostModal_def Let_def createBoostConsentModal_def
          createBoostModalStyles_def sample_world_def boost_page_init_def getUserId_def
          truthy_id_def truthy_num_def)
  from one two have "boost_run sample_world boost_page_init [OpenBoost, OpenBoost]
       \<noteq> boost_run sample_world boost_page_init [OpenBoost]"
    by auto
  with one two show ?thesis by blast
qed

text \<open>
  C2, amended: in the ShrinkEarn controller, for mission ids that are not the empty
  string and that make \<open>[data-mission-id="<id>"]\<close> a valid selector, at most one mission
  flow is in flight at any time, and \<open>activeMission\<close> is truthy exactly while one is; a
  trigger with the flag clear sets it to the mission id and starts the flow; a trigger
  while it is set changes nothing and returns (dropped, not queued); the flow's end
  clears it. The boost trigger \<open>openBoostModal\<close> has no such flag: every call with a
  known user sends its own eligibility request.
\<close>

theorem C2_one_flow_in_flight:
  "(\<not> truthy_str (activeMission s) \<and> in_flight s = []
      \<and> (\<forall>ev \<in> set evs. usable_trigger ok ev)
    \<longrightarrow> length (in_flight (mission_run ok s evs)) \<le> 1
        \<and> truthy_str (activeMission (mission_run ok s evs))
            = (in_flight (mission_run ok s evs) \<noteq> []))
   \<and> (truthy_str (se_userId s) \<and> \<not> truthy_str (activeMission s) \<and> ok m
    \<longrightarrow> activeMission (fst (startShrinkEarnMission ok m s)) = Some m
        \<and> in_flight (fst (startShrinkEarnMission ok m s)) = in_flight s @ [m]
        \<and> snd (startShrinkEarnMission ok m s) = Pending)
   \<and> (truthy_str (se_userId s) \<and> truthy_str (activeMission s)
    \<longrightarrow> startShrinkEarnMission ok m s = (s, Fulfilled ()))
   \<and> (i < length (in_flight s)
    \<longrightarrow> activeMission (mission_settled i a s) = None
        \<and> length (in_flight (mission_settled i a s)) = length (in_flight s) - 1)
   \<and> (truthy_id (getUserId (url_user_id w) (telegram_user_id w))
    \<longrightarrow> eligibility_pending (openBoostModal w p) = eligibility_pending p + 1)"
  using one_mission_in_flight [of s evs ok] idle_trigger_starts [of s ok m]
        busy_trigger_noop [of s ok m] settle_clears [of i s a]
        openBoostModal_unguarded [of w p]
  by blast

theorem C2_one_flow_in_flight_witness:
  "list_all (usable_trigger sample_selector_ok)
     [Trigger ''quick'', Trigger ''long'', Settled 0 None, Trigger ''long'', Trigger ''quick'']
   \<and> in_flight
     (mission_run sample_selector_ok sample_shrinkearn
        [Trigger ''quick'', Trigger ''long'', Settled 0 None, Trigger ''long'', Trigger ''quick''])
     = [''long'']
   \<and> activeMission (fst (startShrinkEarnMission sample_selector_ok ''quick'' sample_shrinkearn))
       = Some ''quick''
   \<and> startShrinkEarnMission sample_selector_ok ''long''
        (fst (startShrinkEarnMission sample_selector_ok ''quick'' sample_shrinkearn))
       = (fst (startShrinkEarnMission sample_selector_ok ''quick'' sample_shrinkearn),
          Fulfilled ())
   \<and> activeMission
       (mission_settled 0 None
          (fst (startShrinkEarnMission sample_selector_ok ''quick'' sample_shrinkearn))) = None
   \<and> in_flight
       (mission_settled 0 None
          (fst (startShrinkEarnMission sample_selector_ok ''quick'' sample_shrinkearn))) = []
   \<and> eligibility_pending (openBoostModal sample_world sample_page) = 1"
  using C2_one_flow_in_flight
          [of sample_shrinkearn
              "[Trigger ''quick'', Trigger ''long'', Settled 0 None, Trigger ''long'',
                Trigger ''quick'']"
              sample_selector_ok "''quick''" 0 None sample_world sample_page]
        C2_one_flow_in_flight
          [of "fst (startShrinkEarnMission sample_selector_ok ''quick'' sample_shrinkearn)"
              "[]" sample_selector_ok "''long''" 0 None sample_world sample_page]
  by (simp add: mission_run_def sample_shrinkearn_def startShrinkEarnMission_def
        mission_settled_def mission_finally_def showToast_def truthy_str_def Let_def
        sample_world_def sample_page_def getUserId_def truthy_id_def truthy_num_def
        sample_selector_ok_def)

end
